theory Spec2Isabelle
  imports Complex_Main "HOL-Library.Word"
begin

section \<open>The ballin command interpreter and its expression engine\<close>

text \<open>
  A shallow embedding of \<^verbatim>\<open>ballin/source/main.cpp\<close> (the command registry, the
  pipeline parser, the primitives) and of \<^verbatim>\<open>ballin/source/math/Eval.cpp\<close> with the
  lexer that follows it in the same file (tokenizer, shunting-yard compiler, stack
  evaluator). \<^verbatim>\<open>main.cpp\<close> holds two revisions of the same program; they differ in
  how the code is factored, in the key by which a name is looked up and in a guard of
  \<^verbatim>\<open>echo\<close>. The definitions take the revision as a parameter where the two differ;
  everything else is one definition that stands for both.
\<close>

subsection \<open>Edit distance\<close>

text \<open>
  \<^verbatim>\<open>calculate_edit_distance(from, to)\<close>, lines 15-33 and 392-410. Both tails are
  taken from \<^verbatim>\<open>from\<close>: \<^verbatim>\<open>toTail = from.substr(1)\<close>. The result type is
  \<^verbatim>\<open>std::size_t\<close>; every value returned is a string length or at most one more
  than a value returned by a recursive call on shorter strings, so \<open>nat\<close> models it
  without wrap-around.
\<close>

fun calculate_edit_distance :: "string \<Rightarrow> string \<Rightarrow> nat" where
  "calculate_edit_distance [] to = length to"
| "calculate_edit_distance (f # fs) [] = length (f # fs)"
| "calculate_edit_distance (f # fs) (t # ts) =
     (let fromTail = fs; toTail = fs in
      if f = t then calculate_edit_distance fromTail toTail
      else 1 + min (calculate_edit_distance fromTail (t # ts))
                   (min (calculate_edit_distance toTail (f # fs))
                        (calculate_edit_distance fromTail toTail)))"

text \<open>
  The classic Levenshtein distance, following the words of the specification: the least
  number of single-character insertions, deletions and substitutions that turn \<open>a\<close>
  into \<open>b\<close>, by the standard recurrence.
\<close>

fun levenshtein :: "string \<Rightarrow> string \<Rightarrow> nat" where
  "levenshtein [] b = length b"
| "levenshtein (x # a) [] = length (x # a)"
| "levenshtein (x # a) (y # b) =
     (if x = y then levenshtein a b
      else 1 + min (levenshtein a (y # b)) (min (levenshtein (x # a) b) (levenshtein a b)))"

subsection \<open>The two revisions\<close>

text \<open>
  The first revision looks a command up with the name as a \<^verbatim>\<open>std::string\<close>; the second
  passes it as a \<^verbatim>\<open>std::string_view\<close> to \<^verbatim>\<open>Commands::command\<close>, which looks up
  \<^verbatim>\<open>commandName.data()\<close>, the characters before the first NUL. Bound arguments are
  stored through \<^verbatim>\<open>argument.data()\<close> in both.
\<close>

datatype revision = First | Second

definition c_str :: "string \<Rightarrow> string" where
  "c_str s = takeWhile (\<lambda>c. c \<noteq> CHR 0x00) s"

definition lookup_key :: "revision \<Rightarrow> string \<Rightarrow> string" where
  "lookup_key rv commandName = (case rv of First \<Rightarrow> commandName | Second \<Rightarrow> c_str commandName)"

subsection \<open>Failures\<close>

text \<open>
  Every way in which the program stops short of returning is a value:
  a failed \<^verbatim>\<open>assert\<close> (with its message), the \<^verbatim>\<open>std::out_of_range\<close> thrown by
  \<^verbatim>\<open>deque::at\<close>, \<^verbatim>\<open>std::exit\<close> called by \<^verbatim>\<open>quit\<close>, and the operations whose
  behaviour C++ leaves undefined (\<^verbatim>\<open>front()\<close> of an empty range, \<^verbatim>\<open>top()\<close> of an
  empty stack, a division of sizes by zero, a negative count given to a range adaptor,
  reaching \<^verbatim>\<open>std::unreachable()\<close>). Assertions are taken as compiled in (no
  \<^verbatim>\<open>NDEBUG\<close>).
\<close>

datatype error = AssertionFailed string | OutOfRange | Exited | UndefinedBehaviour

subsection \<open>Stream extraction and insertion of numbers\<close>

text \<open>
  The primitives and the evaluator read a \<^verbatim>\<open>float\<close> with
  \<^verbatim>\<open>std::stringstream { s } >> x\<close>, compute with the built-in \<^verbatim>\<open>float\<close> operators and
  print with \<^verbatim>\<open>stream << x\<close>; \<^verbatim>\<open>hex\<close>, \<^verbatim>\<open>bin\<close> and \<^verbatim>\<open>iota\<close> read a
  \<^verbatim>\<open>std::size_t\<close> the same way. These belong to the C++ library and the hardware, not
  to the repository, so the program is modelled over any implementation of them: a record
  of the six \<^verbatim>\<open>float\<close> operations over a type \<open>'f\<close> of values and of the extraction of
  a size.
\<close>

record 'f stream_arith =
  read_float :: "string \<Rightarrow> 'f"
  show_float :: "'f \<Rightarrow> string"
  float_add :: "'f \<Rightarrow> 'f \<Rightarrow> 'f"
  float_sub :: "'f \<Rightarrow> 'f \<Rightarrow> 'f"
  float_mul :: "'f \<Rightarrow> 'f \<Rightarrow> 'f"
  float_div :: "'f \<Rightarrow> 'f \<Rightarrow> 'f"
  read_size :: "string \<Rightarrow> 64 word"

text \<open>Decimal and hexadecimal digits, as \<^verbatim>\<open>stream << n\<close> writes a size.\<close>

definition digit_char :: "nat \<Rightarrow> char" where
  "digit_char d = ''0123456789abcdef'' ! d"

fun show_base :: "nat \<Rightarrow> nat \<Rightarrow> string" where
  "show_base b n =
     (if b < 2 \<or> n < b then [digit_char n]
      else show_base b (n div b) @ [digit_char (n mod b)])"

declare show_base.simps [simp del]

definition char_digit :: "char \<Rightarrow> nat" where
  "char_digit c = of_char c - of_char CHR ''0''"

definition isdigit :: "char \<Rightarrow> bool" where
  "isdigit c = (of_char CHR ''0'' \<le> (of_char c :: nat) \<and> (of_char c :: nat) \<le> of_char CHR ''9'')"

definition read_decimal :: "string \<Rightarrow> nat" where
  "read_decimal s = foldl (\<lambda>n c. 10 * n + char_digit c) 0 s"

text \<open>
  One implementation, used to run the model on concrete lines: the integers that
  \<^verbatim>\<open>float\<close> (IEEE binary32) holds exactly. A string of decimal digits below \<open>2 ^ 24\<close>
  is read as that integer; sums, differences and products that stay below \<open>2 ^ 24\<close> in
  magnitude and quotients that divide evenly are exact in binary32, so they are computed
  as integers; an integer below \<open>10 ^ 6\<close> in magnitude is printed by the default
  \<^verbatim>\<open>%g\<close>-style format with six significant digits as its decimal digits, with a minus
  sign if negative. \<open>Untracked\<close> is every other value (fractions, large numbers,
  unreadable input): the implementation does not follow those, prints them as \<open>?\<close>,
  and no statement below is evaluated there. A size is read from a string of decimal
  digits (the largest size when the number does not fit); any other string is read as 0
  here, which is what the library does when the string begins with no number.
\<close>

datatype small_float = Exact int | Untracked

definition exact_in_range :: "int \<Rightarrow> small_float" where
  "exact_in_range i = (if \<bar>i\<bar> < 2 ^ 24 then Exact i else Untracked)"

fun small_binop :: "(int \<Rightarrow> int \<Rightarrow> small_float) \<Rightarrow> small_float \<Rightarrow> small_float \<Rightarrow> small_float" where
  "small_binop f (Exact a) (Exact b) = f a b"
| "small_binop f _ _ = Untracked"

fun show_small :: "small_float \<Rightarrow> string" where
  "show_small (Exact i) =
     (if \<bar>i\<bar> < 10 ^ 6 then (if i < 0 then ''-'' else []) @ show_base 10 (nat \<bar>i\<bar>) else ''?'')"
| "show_small Untracked = ''?''"

definition read_small :: "string \<Rightarrow> small_float" where
  "read_small s =
     (if s \<noteq> [] \<and> list_all isdigit s then exact_in_range (int (read_decimal s)) else Untracked)"

definition read_size_digits :: "string \<Rightarrow> 64 word" where
  "read_size_digits s =
     (if s \<noteq> [] \<and> list_all isdigit s
      then (if read_decimal s < 2 ^ 64 then of_nat (read_decimal s) else - 1)
      else 0)"

definition small_arith :: "small_float stream_arith" where
  "small_arith =
     \<lparr> read_float = read_small,
       show_float = show_small,
       float_add = small_binop (\<lambda>a b. exact_in_range (a + b)),
       float_sub = small_binop (\<lambda>a b. exact_in_range (a - b)),
       float_mul = small_binop (\<lambda>a b. exact_in_range (a * b)),
       float_div = small_binop (\<lambda>a b. if b \<noteq> 0 \<and> b dvd a then exact_in_range (a div b) else Untracked),
       read_size = read_size_digits \<rparr>"

subsection \<open>Standard output and the record of invocations\<close>

text \<open>
  What the program does besides returning values: the characters written to standard
  output, and (kept by the model only, to state which actions ran) one entry for each
  \<^verbatim>\<open>std::invoke(action_m, ...)\<close> made by \<^verbatim>\<open>Command::operator()\<close>: the command's
  name and the argument list it was called with.
\<close>

record world =
  stdout :: string
  invoked :: "(string \<times> string list) list"

definition print :: "string \<Rightarrow> world \<Rightarrow> world" where
  "print s w = w\<lparr> stdout := stdout w @ s \<rparr>"

definition println :: "string \<Rightarrow> world \<Rightarrow> world" where
  "println s w = print (s @ ''\<newline>'') w"

subsection \<open>Suggestions: \<^verbatim>\<open>handle_non_existing_command\<close>\<close>

text \<open>
  The filter predicate. \<^verbatim>\<open>distance\<close> and \<^verbatim>\<open>size\<close> are \<^verbatim>\<open>std::size_t\<close>, so
  \<^verbatim>\<open>(size - distance) / size * 100 > 70\<close> is computed with unsigned 64-bit
  subtraction, truncating division and multiplication; a \<^verbatim>\<open>size\<close> of 0 (both names
  empty) divides by zero.
\<close>

definition is_similar :: "string \<Rightarrow> string \<Rightarrow> error + bool" where
  "is_similar commandName value =
     (let distance = calculate_edit_distance commandName value;
          size = max (length commandName) (length value)
      in if size = 0 then Inl UndefinedBehaviour
         else Inr (70 < (((size + 2 ^ 64 - distance) mod 2 ^ 64) div size * 100) mod 2 ^ 64))"

text \<open>
  The view \<^verbatim>\<open>similarCommands\<close>: the keys of the map, in the map's iteration order,
  that pass the filter.
\<close>

fun similar_commands :: "string list \<Rightarrow> string \<Rightarrow> error + string list" where
  "similar_commands [] commandName = Inr []"
| "similar_commands (value # keys) commandName =
     (case is_similar commandName value of
        Inl e \<Rightarrow> Inl e
      | Inr keep \<Rightarrow>
          (case similar_commands keys commandName of
             Inl e \<Rightarrow> Inl e
           | Inr rest \<Rightarrow> Inr (if keep then value # rest else rest)))"

definition handle_non_existing_command :: "string list \<Rightarrow> string \<Rightarrow> world \<Rightarrow> error + world" where
  "handle_non_existing_command keys commandName w =
     (case similar_commands keys commandName of
        Inl e \<Rightarrow> Inl e
      | Inr similarCommands \<Rightarrow>
          Inr (foldl (\<lambda>w command. println (''    - '' @ command) w)
                 ((if similarCommands \<noteq> [] then println '' did you mean:'' else print ''\<newline>'')
                    (print (''the command `'' @ commandName @ ''` doesn't exist.'') w))
                 similarCommands))"

text \<open>
  The similarity of the specification, following its words: the percentage
  \<open>(maxLen - distance) / maxLen * 100\<close> of the longer of the two names that the edit
  distance leaves untouched, with the Levenshtein distance; a known name is to be
  suggested when it is strictly greater than 70.
\<close>

definition similarity_percent :: "string \<Rightarrow> string \<Rightarrow> real" where
  "similarity_percent unknownName knownName =
     (let maxLen = max (length unknownName) (length knownName);
          distance = levenshtein unknownName knownName
      in (real maxLen - real distance) / real maxLen * 100)"

subsection \<open>Commands and the registry\<close>

text \<open>
  \<^verbatim>\<open>class Command\<close>: name, bound arguments, declared number of arguments, action and
  chained subcommands. An action takes the argument deque; it may print, exit or throw, so
  in the model it also takes the world and returns a failure or its result with the new
  world.
\<close>

type_synonym return_t = "error + string list \<times> world"

datatype Command =
  Command (name_m: string) (arguments_m: "string list") (numberOfArguments_m: nat)
    (action_m: "string list \<Rightarrow> world \<Rightarrow> return_t") (subcommands_m: "Command list")

definition new_command :: "string \<Rightarrow> nat \<Rightarrow> (string list \<Rightarrow> world \<Rightarrow> return_t) \<Rightarrow> Command" where
  "new_command commandName numberOfArguments commandAction =
     Command commandName [] numberOfArguments commandAction []"

definition push_back_argument :: "string \<Rightarrow> Command \<Rightarrow> Command" where
  "push_back_argument argument c =
     Command (name_m c) (arguments_m c @ [c_str argument]) (numberOfArguments_m c) (action_m c) (subcommands_m c)"

definition push_subcommand :: "Command \<Rightarrow> Command \<Rightarrow> Command" where
  "push_subcommand subcommand c =
     Command (name_m c) (arguments_m c) (numberOfArguments_m c) (action_m c) (subcommands_m c @ [subcommand])"

text \<open>
  \<^verbatim>\<open>operator()(arguments)\<close> appends the given arguments to the bound ones and invokes
  the action; \<^verbatim>\<open>operator()()\<close> invokes it on the bound ones alone.
\<close>

definition invoke_with :: "Command \<Rightarrow> string list \<Rightarrow> world \<Rightarrow> return_t" where
  "invoke_with c args w =
     (let localArguments = arguments_m c @ args
      in action_m c localArguments (w\<lparr> invoked := invoked w @ [(name_m c, localArguments)] \<rparr>))"

definition invoke :: "Command \<Rightarrow> world \<Rightarrow> return_t" where
  "invoke c w = action_m c (arguments_m c) (w\<lparr> invoked := invoked w @ [(name_m c, arguments_m c)] \<rparr>)"

text \<open>
  The registry is an \<^verbatim>\<open>std::unordered_map\<close> from name to command. It is modelled as
  an association list with distinct keys; the order of the list stands for the iteration
  order of the map, which the standard leaves open, so statements about suggestions below
  are made for every order of the keys.
\<close>

type_synonym CommandsMap = "(string \<times> Command) list"

definition register_command :: "Command \<Rightarrow> CommandsMap \<Rightarrow> error + CommandsMap" where
  "register_command command commands =
     (if map_of commands (name_m command) \<noteq> None
      then Inl (AssertionFailed ''commands_m.contains(command.name()) != true'')
      else Inr (commands @ [(name_m command, command)]))"

text \<open>
  Looking a name up, as \<^verbatim>\<open>fnParseCommand\<close> and \<^verbatim>\<open>apply\<close> do: a copy of the
  registered command, or the suggestions printed and nothing.
\<close>

definition find_command :: "revision \<Rightarrow> CommandsMap \<Rightarrow> string \<Rightarrow> world \<Rightarrow> error + Command option \<times> world" where
  "find_command rv commands commandName w =
     (case map_of commands (lookup_key rv commandName) of
        None \<Rightarrow>
          (case handle_non_existing_command (map fst commands) commandName w of
             Inl e \<Rightarrow> Inl e
           | Inr w' \<Rightarrow> Inr (None, w'))
      | Some command \<Rightarrow> Inr (Some command, w))"

subsection \<open>The primitives of \<^verbatim>\<open>register_commands\<close>\<close>

text \<open>\<^verbatim>\<open>arguments.at(i)\<close> throws \<^verbatim>\<open>std::out_of_range\<close> beyond the end.\<close>

definition deque_at :: "string list \<Rightarrow> nat \<Rightarrow> error + string" where
  "deque_at arguments i = (if i < length arguments then Inr (arguments ! i) else Inl OutOfRange)"

definition quit_action :: "string list \<Rightarrow> world \<Rightarrow> return_t" where
  "quit_action arguments w = Inl Exited"

text \<open>The arguments joined with single spaces, as \<^verbatim>\<open>std::views::join_with(' ')\<close>.\<close>

fun join_with_space :: "string list \<Rightarrow> string" where
  "join_with_space [] = []"
| "join_with_space [argument] = argument"
| "join_with_space (argument # rest) = argument @ '' '' @ join_with_space rest"

text \<open>Only the second revision returns at once on an empty argument list.\<close>

definition echo_action :: "revision \<Rightarrow> string list \<Rightarrow> world \<Rightarrow> return_t" where
  "echo_action rv arguments w =
     (if rv = Second \<and> arguments = [] then Inr ([], w)
      else Inr ([], println (join_with_space arguments) w))"

text \<open>
  \<^verbatim>\<open>add\<close>, \<^verbatim>\<open>sub\<close>, \<^verbatim>\<open>mul\<close> and \<^verbatim>\<open>div\<close> have the same body up to the operator:
  \<^verbatim>\<open>lhs\<close> is read from argument 0, \<^verbatim>\<open>rhs\<close> from argument 1, and the result of
  \<^verbatim>\<open>lhs op rhs\<close> is printed into the one string returned.
\<close>

definition float_action :: "'f stream_arith \<Rightarrow> ('f \<Rightarrow> 'f \<Rightarrow> 'f) \<Rightarrow> string list \<Rightarrow> world \<Rightarrow> return_t" where
  "float_action A operator arguments w =
     (case deque_at arguments 0 of
        Inl e \<Rightarrow> Inl e
      | Inr first \<Rightarrow>
          (case deque_at arguments 1 of
             Inl e \<Rightarrow> Inl e
           | Inr second \<Rightarrow>
               (let lhs = read_float A first; rhs = read_float A second
                in Inr ([show_float A (operator lhs rhs)], w))))"

definition add_action :: "'f stream_arith \<Rightarrow> string list \<Rightarrow> world \<Rightarrow> return_t" where
  "add_action A = float_action A (float_add A)"

definition sub_action :: "'f stream_arith \<Rightarrow> string list \<Rightarrow> world \<Rightarrow> return_t" where
  "sub_action A = float_action A (float_sub A)"

definition mul_action :: "'f stream_arith \<Rightarrow> string list \<Rightarrow> world \<Rightarrow> return_t" where
  "mul_action A = float_action A (float_mul A)"

definition div_action :: "'f stream_arith \<Rightarrow> string list \<Rightarrow> world \<Rightarrow> return_t" where
  "div_action A = float_action A (float_div A)"

definition hex_action :: "'f stream_arith \<Rightarrow> string list \<Rightarrow> world \<Rightarrow> return_t" where
  "hex_action A arguments w =
     (case deque_at arguments 0 of
        Inl e \<Rightarrow> Inl e
      | Inr first \<Rightarrow> (let value = read_size A first in Inr ([''0x'' @ show_base 16 (unat value)], w)))"

text \<open>
  \<^verbatim>\<open>std::bitset<N>(value).to_string()\<close>: the \<open>N\<close> low bits of the value, the most
  significant first.
\<close>

definition bitset_to_string :: "nat \<Rightarrow> 64 word \<Rightarrow> string" where
  "bitset_to_string N value = map (\<lambda>i. if bit value i then CHR ''1'' else CHR ''0'') (rev [0..<N])"

definition bin_action :: "'f stream_arith \<Rightarrow> string list \<Rightarrow> world \<Rightarrow> return_t" where
  "bin_action A arguments w =
     (case deque_at arguments 0 of
        Inl e \<Rightarrow> Inl e
      | Inr first \<Rightarrow>
          (let value = read_size A first
           in if value \<le> 0xFF then Inr ([''0b'' @ bitset_to_string 8 value], w)
              else if value \<le> 0xFFFF then Inr ([''0b'' @ bitset_to_string 16 value], w)
              else if value \<le> 0xFFFFFFFF then Inr ([''0b'' @ bitset_to_string 32 value], w)
              else if value \<le> 0xFFFFFFFFFFFFFFFF then Inr ([''0b'' @ bitset_to_string 64 value], w)
              else Inl UndefinedBehaviour))"

text \<open>
  \<^verbatim>\<open>std::views::iota(minimum, maximum + 1)\<close>; the bound is computed in
  \<^verbatim>\<open>std::size_t\<close> and wraps. A bound below the start violates the precondition of
  \<^verbatim>\<open>iota\<close>.
\<close>

definition iota_action :: "'f stream_arith \<Rightarrow> string list \<Rightarrow> world \<Rightarrow> return_t" where
  "iota_action A arguments w =
     (case deque_at arguments 0 of
        Inl e \<Rightarrow> Inl e
      | Inr first \<Rightarrow>
          (case deque_at arguments 1 of
             Inl e \<Rightarrow> Inl e
           | Inr second \<Rightarrow>
               (let minimum = read_size A first; maximum = read_size A second
                in if maximum + 1 < minimum then Inl UndefinedBehaviour
                   else Inr (map (show_base 10) [unat minimum ..< unat (maximum + 1)], w))))"

text \<open>
  The loop of \<^verbatim>\<open>apply\<close>: each streamed argument is pushed at the \<^emph>\<open>front\<close> of
  \<^verbatim>\<open>requestedCommandArguments\<close>, the requested command is invoked on that deque, the
  first element of a non-empty result is collected, and the argument is popped again.
\<close>

fun apply_each :: "(string list \<Rightarrow> world \<Rightarrow> return_t) \<Rightarrow> string list \<Rightarrow> string list \<Rightarrow> string list \<Rightarrow> world \<Rightarrow> return_t" where
  "apply_each requestedCommand requestedCommandArguments [] result w = Inr (result, w)"
| "apply_each requestedCommand requestedCommandArguments (argument # rest) result w =
     (case requestedCommand (argument # requestedCommandArguments) w of
        Inl e \<Rightarrow> Inl e
      | Inr (operationResult, w') \<Rightarrow>
          apply_each requestedCommand requestedCommandArguments rest
            (case operationResult of [] \<Rightarrow> result | front # _ \<Rightarrow> result @ [front]) w')"

text \<open>
  \<^verbatim>\<open>apply\<close>. The declared number of arguments of the requested command is a
  \<^verbatim>\<open>std::size_t\<close>; \<^verbatim>\<open>std::views::take\<close> and \<^verbatim>\<open>std::views::drop\<close> convert it to
  the signed difference type of the deque, and both require a count that is not negative.
  A declared number above \<open>2 ^ 63 - 1\<close> becomes negative, which is undefined behaviour.

  The lambda captures the registry by reference, so that the command it finds may be
  \<^verbatim>\<open>apply\<close> itself, which is registered with the largest \<^verbatim>\<open>std::size_t\<close> as its
  declared number: that is the first branch. \<open>others\<close> are the commands registered before
  \<^verbatim>\<open>apply\<close>.
\<close>

definition SIZE_MAX :: nat where
  "SIZE_MAX = 2 ^ 64 - 1"

definition PTRDIFF_MAX :: nat where
  "PTRDIFF_MAX = 2 ^ 63 - 1"

definition apply_action :: "revision \<Rightarrow> CommandsMap \<Rightarrow> string list \<Rightarrow> world \<Rightarrow> return_t" where
  "apply_action rv others arguments w =
     (case deque_at arguments 0 of
        Inl e \<Rightarrow> Inl e
      | Inr requested \<Rightarrow>
          if lookup_key rv requested = ''apply''
          then Inl UndefinedBehaviour
          else
            (case map_of others (lookup_key rv requested) of
               None \<Rightarrow>
                 (case handle_non_existing_command (map fst others @ [''apply'']) requested w of
                    Inl e \<Rightarrow> Inl e
                  | Inr w' \<Rightarrow> Inr ([], w'))
             | Some requestedCommand \<Rightarrow>
                 if PTRDIFF_MAX < numberOfArguments_m requestedCommand then Inl UndefinedBehaviour
                 else apply_each (invoke_with requestedCommand)
                        (drop 1 (take (numberOfArguments_m requestedCommand) arguments))
                        (drop (numberOfArguments_m requestedCommand) arguments) [] w))"

text \<open>
  \<^verbatim>\<open>register_commands\<close>: the ten primitives in the order of registration. The lambda of
  \<^verbatim>\<open>apply\<close> captures the registry by reference; when it runs the registry holds the
  nine commands registered before it and \<^verbatim>\<open>apply\<close> itself.
\<close>

definition base_commands :: "revision \<Rightarrow> 'f stream_arith \<Rightarrow> Command list" where
  "base_commands rv A =
     [new_command ''quit'' 0 quit_action,
      new_command ''echo'' 1 (echo_action rv),
      new_command ''add'' 2 (add_action A),
      new_command ''sub'' 2 (sub_action A),
      new_command ''mul'' 2 (mul_action A),
      new_command ''div'' 2 (div_action A),
      new_command ''hex'' 1 (hex_action A),
      new_command ''bin'' 1 (bin_action A),
      new_command ''iota'' 2 (iota_action A)]"

fun register_all :: "Command list \<Rightarrow> CommandsMap \<Rightarrow> error + CommandsMap" where
  "register_all [] commands = Inr commands"
| "register_all (command # rest) commands =
     (case register_command command commands of
        Inl e \<Rightarrow> Inl e
      | Inr commands' \<Rightarrow> register_all rest commands')"

definition register_commands :: "revision \<Rightarrow> 'f stream_arith \<Rightarrow> error + CommandsMap" where
  "register_commands rv A =
     (case register_all (base_commands rv A) [] of
        Inl e \<Rightarrow> Inl e
      | Inr others \<Rightarrow> register_command (new_command ''apply'' SIZE_MAX (apply_action rv others)) others)"

text \<open>The registry that \<^verbatim>\<open>register_commands\<close> builds, written out.\<close>

definition keyed :: "Command list \<Rightarrow> CommandsMap" where
  "keyed commands = map (\<lambda>command. (name_m command, command)) commands"

definition apply_command :: "revision \<Rightarrow> 'f stream_arith \<Rightarrow> Command" where
  "apply_command rv A = new_command ''apply'' SIZE_MAX (apply_action rv (keyed (base_commands rv A)))"

definition registry :: "revision \<Rightarrow> 'f stream_arith \<Rightarrow> CommandsMap" where
  "registry rv A = keyed (base_commands rv A @ [apply_command rv A])"

subsection \<open>The interpreter\<close>

record Interpreter =
  queuedCommands_m :: "Command list"
  availableCommands_m :: CommandsMap

definition new_interpreter :: "CommandsMap \<Rightarrow> Interpreter" where
  "new_interpreter commands = \<lparr> queuedCommands_m = [], availableCommands_m = commands \<rparr>"

text \<open>
  \<^verbatim>\<open>input | std::views::split(' ')\<close>: the pieces between single spaces, empty pieces
  included; an empty input has no piece at all.
\<close>

fun split_from :: "string \<Rightarrow> string \<Rightarrow> string list" where
  "split_from cur [] = [cur]"
| "split_from cur (c # cs) =
     (if c = CHR '' '' then cur # split_from [] cs else split_from (cur @ [c]) cs)"

definition split_space :: "string \<Rightarrow> string list" where
  "split_space input = (if input = [] then [] else split_from [] input)"

text \<open>
  \<^verbatim>\<open>value.front() == '|'\<close>, the test that both lambdas of \<^verbatim>\<open>enqueue_command\<close> make
  on a word; \<^verbatim>\<open>front()\<close> of an empty word is undefined behaviour.
\<close>

definition front_is_pipe :: "string \<Rightarrow> error + bool" where
  "front_is_pipe word = (case word of [] \<Rightarrow> Inl UndefinedBehaviour | front # _ \<Rightarrow> Inr (front = CHR ''|''))"

text \<open>
  \<^verbatim>\<open>std::views::chunk_by\<close> with the predicate \<^verbatim>\<open>rhs.front() != '|'\<close>: a chunk runs
  on while the next word does not begin with a pipe. The view is lazy: the words of one
  chunk are examined when that chunk is reached. Given the words after the first word of
  a chunk, \<open>rest_of_chunk\<close> returns the remaining words of the chunk and the words from
  the next chunk on.
\<close>

fun rest_of_chunk :: "string list \<Rightarrow> error + string list \<times> string list" where
  "rest_of_chunk [] = Inr ([], [])"
| "rest_of_chunk (rhs # words) =
     (case front_is_pipe rhs of
        Inl e \<Rightarrow> Inl e
      | Inr True \<Rightarrow> Inr ([], rhs # words)
      | Inr False \<Rightarrow>
          (case rest_of_chunk words of
             Inl e \<Rightarrow> Inl e
           | Inr (chunk, rest) \<Rightarrow> Inr (rhs # chunk, rest)))"

text \<open>\<^verbatim>\<open>std::views::drop_while\<close> with the predicate \<^verbatim>\<open>value.front() == '|'\<close>.\<close>

fun drop_while_pipe :: "string list \<Rightarrow> error + string list" where
  "drop_while_pipe [] = Inr []"
| "drop_while_pipe (word # words) =
     (case front_is_pipe word of
        Inl e \<Rightarrow> Inl e
      | Inr True \<Rightarrow> drop_while_pipe words
      | Inr False \<Rightarrow> Inr (word # words))"

text \<open>
  The lambda \<^verbatim>\<open>fnParseCommand\<close>: the first word left after the dropped ones is the
  name (\<^verbatim>\<open>view.front()\<close>, undefined on an empty view), the rest are the arguments.
\<close>

definition fnParseCommand :: "revision \<Rightarrow> CommandsMap \<Rightarrow> string list \<Rightarrow> world \<Rightarrow> error + Command option \<times> world" where
  "fnParseCommand rv commands input w =
     (case drop_while_pipe input of
        Inl e \<Rightarrow> Inl e
      | Inr [] \<Rightarrow> Inl UndefinedBehaviour
      | Inr (name # arguments) \<Rightarrow>
          (case find_command rv commands name w of
             Inl e \<Rightarrow> Inl e
           | Inr (None, w') \<Rightarrow> Inr (None, w')
           | Inr (Some command, w') \<Rightarrow>
               Inr (Some (foldl (\<lambda>command argument. push_back_argument argument command) command arguments), w')))"

lemma rest_of_chunk_length:
  "rest_of_chunk words = Inr (chunk, rest) \<Longrightarrow> length rest \<le> length words"
  by (induction words arbitrary: chunk rest) (auto split: sum.splits bool.splits)

text \<open>
  The loop over \<^verbatim>\<open>commands | std::views::drop(1)\<close>: each further chunk is parsed and
  pushed onto the master command; the first that does not resolve ends the function.
\<close>

function parse_subcommands :: "revision \<Rightarrow> CommandsMap \<Rightarrow> Command \<Rightarrow> string list \<Rightarrow> world \<Rightarrow> error + Command option \<times> world" where
  "parse_subcommands rv commands masterCommand [] w = Inr (Some masterCommand, w)"
| "parse_subcommands rv commands masterCommand (first # words) w =
     (case rest_of_chunk words of
        Inl e \<Rightarrow> Inl e
      | Inr (chunk, rest) \<Rightarrow>
          (case fnParseCommand rv commands (first # chunk) w of
             Inl e \<Rightarrow> Inl e
           | Inr (None, w') \<Rightarrow> Inr (None, w')
           | Inr (Some subcommand, w') \<Rightarrow>
               parse_subcommands rv commands (push_subcommand subcommand masterCommand) rest w'))"
  by pat_completeness auto
termination
  by (relation "measure (\<lambda>(rv, commands, masterCommand, words, w). length words)")
     (auto dest: rest_of_chunk_length)

text \<open>
  \<^verbatim>\<open>enqueue_command\<close>: \<open>enqueue_words\<close> is its body on the pieces of the line.
  \<^verbatim>\<open>commands.front()\<close> on no piece at all is undefined behaviour. Only when every
  chunk has resolved is the master command pushed onto the queue.
\<close>

definition enqueue_words :: "revision \<Rightarrow> string list \<Rightarrow> Interpreter \<Rightarrow> world \<Rightarrow> error + Interpreter \<times> world" where
  "enqueue_words rv pieces I w =
     (case pieces of
        [] \<Rightarrow> Inl UndefinedBehaviour
      | first # words \<Rightarrow>
          (case rest_of_chunk words of
             Inl e \<Rightarrow> Inl e
           | Inr (chunk, rest) \<Rightarrow>
               (case fnParseCommand rv (availableCommands_m I) (first # chunk) w of
                  Inl e \<Rightarrow> Inl e
                | Inr (None, w') \<Rightarrow> Inr (I, w')
                | Inr (Some masterCommand, w') \<Rightarrow>
                    (case parse_subcommands rv (availableCommands_m I) masterCommand rest w' of
                       Inl e \<Rightarrow> Inl e
                     | Inr (None, w'') \<Rightarrow> Inr (I, w'')
                     | Inr (Some masterCommand', w'') \<Rightarrow>
                         Inr (I\<lparr> queuedCommands_m := queuedCommands_m I @ [masterCommand'] \<rparr>, w'')))))"

definition enqueue_command :: "revision \<Rightarrow> string \<Rightarrow> Interpreter \<Rightarrow> world \<Rightarrow> error + Interpreter \<times> world" where
  "enqueue_command rv input I w = enqueue_words rv (split_space input) I w"

text \<open>
  \<^verbatim>\<open>execute\<close>: the master command is invoked on its bound arguments, each subcommand
  on the result so far, and the master is popped; until the queue is empty.
\<close>

fun run_subcommands :: "Command list \<Rightarrow> string list \<Rightarrow> world \<Rightarrow> return_t" where
  "run_subcommands [] operationResult w = Inr (operationResult, w)"
| "run_subcommands (subcommand # rest) operationResult w =
     (case invoke_with subcommand operationResult w of
        Inl e \<Rightarrow> Inl e
      | Inr (operationResult', w') \<Rightarrow> run_subcommands rest operationResult' w')"

fun execute_queue :: "Command list \<Rightarrow> world \<Rightarrow> error + world" where
  "execute_queue [] w = Inr w"
| "execute_queue (masterCommand # queue) w =
     (case invoke masterCommand w of
        Inl e \<Rightarrow> Inl e
      | Inr (operationResult, w') \<Rightarrow>
          (case run_subcommands (subcommands_m masterCommand) operationResult w' of
             Inl e \<Rightarrow> Inl e
           | Inr (_, w'') \<Rightarrow> execute_queue queue w''))"

definition execute :: "Interpreter \<Rightarrow> world \<Rightarrow> error + Interpreter \<times> world" where
  "execute I w =
     (case execute_queue (queuedCommands_m I) w of
        Inl e \<Rightarrow> Inl e
      | Inr w' \<Rightarrow> Inr (I\<lparr> queuedCommands_m := [] \<rparr>, w'))"

text \<open>One turn of the loop of \<^verbatim>\<open>main\<close> on the line read: prompt, enqueue, execute.\<close>

definition main_loop_body :: "revision \<Rightarrow> string \<Rightarrow> Interpreter \<Rightarrow> world \<Rightarrow> error + Interpreter \<times> world" where
  "main_loop_body rv input I w =
     (case enqueue_command rv input I (print ''>> '' w) of
        Inl e \<Rightarrow> Inl e
      | Inr (I', w') \<Rightarrow> execute I' w')"

text \<open>
  What a queue holds, without the actions: for each master command its name and bound
  arguments and those of its subcommands. \<open>outcome\<close> is what can be observed of a
  result: the queued pipelines and the text on standard output.
\<close>

definition stage :: "Command \<Rightarrow> string \<times> string list" where
  "stage c = (name_m c, arguments_m c)"

definition pipeline :: "Command \<Rightarrow> (string \<times> string list) list" where
  "pipeline masterCommand = stage masterCommand # map stage (subcommands_m masterCommand)"

definition outcome :: "error + Interpreter \<times> world \<Rightarrow> error + (string \<times> string list) list list \<times> string" where
  "outcome result = map_sum id (\<lambda>(I, w). (map pipeline (queuedCommands_m I), stdout w)) result"

definition initial_world :: world where
  "initial_world = \<lparr> stdout = [], invoked = [] \<rparr>"

text \<open>
  Words for the statements about the parser. A word begins with a pipe; a chunk, as
  \<^verbatim>\<open>chunk_by\<close> cuts it, is a non-empty run of non-empty words of which only the first
  may begin with a pipe; its name is its first word that does not.
\<close>

definition begins_with_pipe :: "string \<Rightarrow> bool" where
  "begins_with_pipe word = (case word of [] \<Rightarrow> False | front # _ \<Rightarrow> front = CHR ''|'')"

definition is_chunk :: "string list \<Rightarrow> bool" where
  "is_chunk chunk = (chunk \<noteq> [] \<and> [] \<notin> set chunk \<and> list_all (\<lambda>word. \<not> begins_with_pipe word) (tl chunk))"

definition chunk_name :: "string list \<Rightarrow> string option" where
  "chunk_name chunk = (case dropWhile begins_with_pipe chunk of [] \<Rightarrow> None | name # _ \<Rightarrow> Some name)"

definition resolves :: "revision \<Rightarrow> CommandsMap \<Rightarrow> string list \<Rightarrow> bool" where
  "resolves rv commands chunk =
     (case chunk_name chunk of None \<Rightarrow> False | Some name \<Rightarrow> map_of commands (lookup_key rv name) \<noteq> None)"

definition fails_to_resolve :: "revision \<Rightarrow> CommandsMap \<Rightarrow> string list \<Rightarrow> bool" where
  "fails_to_resolve rv commands chunk =
     (case chunk_name chunk of None \<Rightarrow> False | Some name \<Rightarrow> map_of commands (lookup_key rv name) = None)"

text \<open>A word that begins with a pipe, replaced by the pipe alone.\<close>

definition bare_pipe :: "string \<Rightarrow> string" where
  "bare_pipe word = (if begins_with_pipe word then ''|'' else word)"

text \<open>
  Words for the statement about \<^verbatim>\<open>bin\<close>: the smallest of the widths 8, 16, 32 and 64
  that holds a value below \<open>2 ^ 64\<close>, and the binary digits of a value padded with
  zeros on the left to a width.
\<close>

definition smallest_width :: "nat \<Rightarrow> nat" where
  "smallest_width v = (if v < 2 ^ 8 then 8 else if v < 2 ^ 16 then 16 else if v < 2 ^ 32 then 32 else 64)"

definition binary_padded :: "nat \<Rightarrow> nat \<Rightarrow> string" where
  "binary_padded width v = replicate (width - length (show_base 2 v)) CHR ''0'' @ show_base 2 v"

definition bits_string :: "nat \<Rightarrow> nat \<Rightarrow> string" where
  "bits_string N n = map (\<lambda>i. if bit n i then CHR ''1'' else CHR ''0'') (rev [0..<N])"

subsection \<open>Tokens\<close>

text \<open>
  \<^verbatim>\<open>struct Token\<close> of the lexer's header. \<^verbatim>\<open>Precedence\<close> is an \<^verbatim>\<open>enum class\<close> whose
  enumerators \<^verbatim>\<open>NONE, _3, _2, _1\<close> have the underlying values 0, 1, 2, 3; the compiler
  compares those values.
\<close>

datatype Type = NUMBER | OPERATOR | LPAREN | RPAREN

datatype Precedence = NONE | Prec_3 | Prec_2 | Prec_1

datatype Fixity = LEFT | RIGHT

record Token =
  type :: Type
  precedence :: Precedence
  fixity :: Fixity
  val :: string

fun underlying :: "Precedence \<Rightarrow> nat" where
  "underlying NONE = 0"
| "underlying Prec_3 = 1"
| "underlying Prec_2 = 2"
| "underlying Prec_1 = 3"

definition is_number :: "Token \<Rightarrow> bool" where
  "is_number token = (type token = NUMBER)"

definition is_operator :: "Token \<Rightarrow> bool" where
  "is_operator token = (type token = OPERATOR)"

definition is_left_parenthesis :: "Token \<Rightarrow> bool" where
  "is_left_parenthesis token = (type token = LPAREN)"

definition is_right_parenthesis :: "Token \<Rightarrow> bool" where
  "is_right_parenthesis token = (type token = RPAREN)"

subsection \<open>Lexer\<close>

text \<open>
  \<^verbatim>\<open>std::istream_iterator<std::string>\<close> yields the maximal runs of characters that
  are not white space (\<^verbatim>\<open>isspace\<close> in the C locale: space, tab, line feed, vertical
  tab, form feed, carriage return). \<open>cur\<close> is the word being read.
\<close>

definition isspace :: "char \<Rightarrow> bool" where
  "isspace c = (c = CHR '' '' \<or> (9 \<le> (of_char c :: nat) \<and> (of_char c :: nat) \<le> 13))"

fun stream_words :: "string \<Rightarrow> string \<Rightarrow> string list" where
  "stream_words cur [] = (if cur = [] then [] else [cur])"
| "stream_words cur (c # cs) =
     (if isspace c then (if cur = [] then stream_words [] cs else cur # stream_words [] cs)
      else stream_words (cur @ [c]) cs)"

text \<open>
  The body of the \<^verbatim>\<open>for_each\<close> in \<^verbatim>\<open>Lexer::tokenize\<close>. \<^verbatim>\<open>Token token {}\<close>
  value-initialises the token, so \<^verbatim>\<open>fixity\<close>, which is never assigned, is \<^verbatim>\<open>LEFT\<close>.
  The \<^verbatim>\<open>default\<close> label asserts false.
\<close>

definition lex_word :: "string \<Rightarrow> error + Token" where
  "lex_word word =
     (let token = \<lparr> type = NUMBER, precedence = NONE, fixity = LEFT, val = word \<rparr> in
      if list_all (\<lambda>byte. isdigit byte \<or> byte = CHR ''.'') (val token)
      then Inr (token\<lparr> type := NUMBER, precedence := NONE \<rparr>)
      else (case val token of
              [] \<Rightarrow> Inl UndefinedBehaviour
            | front # _ \<Rightarrow>
                if front = CHR ''+'' \<or> front = CHR ''-''
                then Inr (token\<lparr> type := OPERATOR, precedence := Prec_3 \<rparr>)
                else if front = CHR ''*'' \<or> front = CHR ''/''
                then Inr (token\<lparr> type := OPERATOR, precedence := Prec_2 \<rparr>)
                else if front = CHR ''(''
                then Inr (token\<lparr> type := LPAREN, precedence := Prec_1 \<rparr>)
                else if front = CHR '')''
                then Inr (token\<lparr> type := RPAREN, precedence := Prec_1 \<rparr>)
                else Inl (AssertionFailed ''UNRECOGNIZED SYMBOL WAS REACHED'')))"

fun lex_words :: "string list \<Rightarrow> error + Token list" where
  "lex_words [] = Inr []"
| "lex_words (word # rest) =
     (case lex_word word of
        Inl e \<Rightarrow> Inl e
      | Inr token \<Rightarrow> (case lex_words rest of Inl e \<Rightarrow> Inl e | Inr tokens \<Rightarrow> Inr (token # tokens)))"

text \<open>
  The constructor fills the stream from \<^verbatim>\<open>expression.data()\<close>, the characters before
  the first NUL.
\<close>

definition tokenize :: "string \<Rightarrow> error + Token list" where
  "tokenize expression = lex_words (stream_words [] (c_str expression))"

subsection \<open>Compiler: \<^verbatim>\<open>parse_expression\<close>\<close>

text \<open>
  The state of the loop is the output \<^verbatim>\<open>expression\<close> (a vector, appended at the back)
  and the deque \<^verbatim>\<open>expressionOperators\<close>, used as a stack whose top is the front; the
  head of the list is the front of the deque.

  The \<^verbatim>\<open>while\<close> loop of the \<^verbatim>\<open>OPERATOR\<close> case: it stops at an empty deque, at a
  left parenthesis, or at an operator that the token does not yield to.
\<close>

fun pop_operators :: "Token \<Rightarrow> Token list \<Rightarrow> Token list \<Rightarrow> Token list \<times> Token list" where
  "pop_operators token expression [] = (expression, [])"
| "pop_operators token expression (front # expressionOperators) =
     (let hasLowerPrecedence = underlying (precedence token) < underlying (precedence front);
          hasEqualPrecedence = (precedence token = precedence front)
      in if is_left_parenthesis front \<or>
            \<not> (hasLowerPrecedence \<or> (hasEqualPrecedence \<and> fixity token = LEFT))
         then (expression, front # expressionOperators)
         else pop_operators token (expression @ [front]) expressionOperators)"

text \<open>The \<^verbatim>\<open>while\<close> loop of the \<^verbatim>\<open>RPAREN\<close> case.\<close>

fun pop_until_left_parenthesis :: "Token list \<Rightarrow> Token list \<Rightarrow> Token list \<times> Token list" where
  "pop_until_left_parenthesis expression [] = (expression, [])"
| "pop_until_left_parenthesis expression (front # expressionOperators) =
     (if is_left_parenthesis front then (expression, front # expressionOperators)
      else pop_until_left_parenthesis (expression @ [front]) expressionOperators)"

text \<open>One iteration of the \<^verbatim>\<open>for\<close> loop: the \<^verbatim>\<open>switch\<close> on the token's type.\<close>

definition parse_token :: "Token \<Rightarrow> Token list \<times> Token list \<Rightarrow> error + Token list \<times> Token list" where
  "parse_token token state =
     (case state of (expression, expressionOperators) \<Rightarrow>
        (case type token of
           NUMBER \<Rightarrow> Inr (expression @ [token], expressionOperators)
         | OPERATOR \<Rightarrow>
             (case pop_operators token expression expressionOperators of
                (expression', expressionOperators') \<Rightarrow> Inr (expression', token # expressionOperators'))
         | LPAREN \<Rightarrow> Inr (expression, token # expressionOperators)
         | RPAREN \<Rightarrow>
             (case pop_until_left_parenthesis expression expressionOperators of
                (expression', []) \<Rightarrow> Inl (AssertionFailed ''MISMATCHING PARENTHESIS'')
              | (expression', front # expressionOperators') \<Rightarrow> Inr (expression', expressionOperators'))))"

fun parse_tokens :: "Token list \<Rightarrow> Token list \<times> Token list \<Rightarrow> error + Token list \<times> Token list" where
  "parse_tokens [] state = Inr state"
| "parse_tokens (token # tokens) state =
     (case parse_token token state of Inl e \<Rightarrow> Inl e | Inr state' \<Rightarrow> parse_tokens tokens state')"

text \<open>After the loop the operators left on the deque are appended from front to back.\<close>

definition parse_expression :: "Token list \<Rightarrow> error + Token list" where
  "parse_expression tokens =
     (case parse_tokens tokens ([], []) of
        Inl e \<Rightarrow> Inl e
      | Inr (expression, expressionOperators) \<Rightarrow> Inr (expression @ expressionOperators))"

subsection \<open>Evaluator: \<^verbatim>\<open>evaluate_expression\<close>\<close>

text \<open>
  The stack of \<^verbatim>\<open>float\<close>s is a list whose head is the top. In the \<^verbatim>\<open>OPERATOR\<close>
  case the variable named \<^verbatim>\<open>lhs\<close> receives the top of the stack and \<^verbatim>\<open>rhs\<close> the
  value below it; the compound assignment \<^verbatim>\<open>rhs -= lhs\<close> then computes
  \<^verbatim>\<open>rhs - lhs\<close>. A first character other than the four operators leaves \<^verbatim>\<open>rhs\<close>
  as it is. \<^verbatim>\<open>top()\<close> of an empty stack and \<^verbatim>\<open>front()\<close> of an empty string are
  undefined behaviour.
\<close>

definition evaluate_token :: "'f stream_arith \<Rightarrow> Token \<Rightarrow> 'f list \<Rightarrow> error + 'f list" where
  "evaluate_token A token expressionStack =
     (case type token of
        NUMBER \<Rightarrow> Inr (read_float A (val token) # expressionStack)
      | OPERATOR \<Rightarrow>
          (case expressionStack of
             lhs # rhs # rest \<Rightarrow>
               (case val token of
                  [] \<Rightarrow> Inl UndefinedBehaviour
                | front # _ \<Rightarrow>
                    Inr ((if front = CHR ''+'' then float_add A rhs lhs
                          else if front = CHR ''-'' then float_sub A rhs lhs
                          else if front = CHR ''*'' then float_mul A rhs lhs
                          else if front = CHR ''/'' then float_div A rhs lhs
                          else rhs) # rest))
           | _ \<Rightarrow> Inl UndefinedBehaviour)
      | LPAREN \<Rightarrow> Inr expressionStack
      | RPAREN \<Rightarrow> Inr expressionStack)"

fun evaluate_tokens :: "'f stream_arith \<Rightarrow> Token list \<Rightarrow> 'f list \<Rightarrow> error + 'f list" where
  "evaluate_tokens A [] expressionStack = Inr expressionStack"
| "evaluate_tokens A (token # tokens) expressionStack =
     (case evaluate_token A token expressionStack of
        Inl e \<Rightarrow> Inl e
      | Inr expressionStack' \<Rightarrow> evaluate_tokens A tokens expressionStack')"

definition evaluate_expression :: "'f stream_arith \<Rightarrow> Token list \<Rightarrow> error + 'f" where
  "evaluate_expression A tokens =
     (case evaluate_tokens A tokens [] of
        Inl e \<Rightarrow> Inl e
      | Inr [] \<Rightarrow> Inl UndefinedBehaviour
      | Inr (number # _) \<Rightarrow> Inr number)"

text \<open>The three stages in sequence: tokenize, compile, evaluate.\<close>

definition calculate :: "'f stream_arith \<Rightarrow> string \<Rightarrow> error + 'f" where
  "calculate A expression =
     (case tokenize expression of
        Inl e \<Rightarrow> Inl e
      | Inr tokens \<Rightarrow>
          (case parse_expression tokens of
             Inl e \<Rightarrow> Inl e
           | Inr postfix \<Rightarrow> evaluate_expression A postfix))"




section \<open>Properties\<close>

subsection \<open>Edit distance\<close>

lemma calculate_edit_distance_same: "calculate_edit_distance x x = 0"
  by (induction x) simp_all

lemma calculate_edit_distance_closed:
  "calculate_edit_distance a b =
     (case a of [] \<Rightarrow> length b
      | f # fs \<Rightarrow> (case b of [] \<Rightarrow> length a
                   | t # ts \<Rightarrow> if f = t then 0 else 1))"
  by (cases a; cases b) (simp_all add: calculate_edit_distance_same)

text \<open>
  C2. The claim: for every pair of strings, \<^verbatim>\<open>calculate_edit_distance\<close> equals the
  Levenshtein distance. The code takes \<^verbatim>\<open>toTail\<close> from \<^verbatim>\<open>from\<close> instead of
  \<^verbatim>\<open>to\<close>, so that on \<^verbatim>\<open>eco\<close> and \<^verbatim>\<open>echo\<close> it compares \<^verbatim>\<open>co\<close> with itself
  and returns 0, where one insertion is needed; on \<^verbatim>\<open>kitten\<close> and \<^verbatim>\<open>sitting\<close> it
  returns 1, where the distance is 3.
\<close>

theorem calculate_edit_distance_not_levenshtein:
  "calculate_edit_distance ''eco'' ''echo'' = 0 \<and> levenshtein ''eco'' ''echo'' = 1 \<and>
   calculate_edit_distance ''kitten'' ''sitting'' = 1 \<and> levenshtein ''kitten'' ''sitting'' = 3"
  by code_simp

text \<open>
  C9. For every string \<open>x\<close> the distance from \<open>x\<close> to itself is 0, and for all strings
  \<open>x\<close> and \<open>y\<close> the distance from \<open>x\<close> to \<open>y\<close> equals the distance from \<open>y\<close> to
  \<open>x\<close>. Both hold of the code as it is: once both strings are non-empty the result
  depends on the two first characters only.
\<close>

theorem calculate_edit_distance_zero_and_symmetric:
  "calculate_edit_distance x x = 0 \<and>
   calculate_edit_distance x y = calculate_edit_distance y x"
proof
  show "calculate_edit_distance x x = 0"
    by (rule calculate_edit_distance_same)
next
  show "calculate_edit_distance x y = calculate_edit_distance y x"
    by (cases x; cases y) (auto simp: calculate_edit_distance_closed)
qed

subsection \<open>Expression engine\<close>

lemmas run_defs = calculate_def tokenize_def c_str_def lex_word_def isspace_def isdigit_def
  parse_expression_def parse_token_def evaluate_expression_def evaluate_token_def
  is_left_parenthesis_def is_right_parenthesis_def

lemmas small_defs = small_arith_def read_small_def read_decimal_def char_digit_def
  exact_in_range_def isdigit_def







text \<open>
  The postfix order the compiler gives to a product and a sum of number tokens, whichever
  comes first, and to a parenthesised sum: an addition met while a multiplication is on
  the deque pops it to the output, a multiplication met while an addition is on the deque
  does not, and a right parenthesis pops the addition inside.
\<close>

lemma parse_expression_sum_of_product:
  assumes "type a = NUMBER" and "type b = NUMBER" and "type c = NUMBER"
    and "type add_op = OPERATOR" and "precedence add_op = Prec_3"
    and "type mul_op = OPERATOR" and "precedence mul_op = Prec_2"
  shows "parse_expression [a, add_op, b, mul_op, c] = Inr [a, b, c, mul_op, add_op]"
    and "parse_expression [a, mul_op, b, add_op, c] = Inr [a, b, mul_op, c, add_op]"
  using assms
  by (simp_all add: parse_expression_def parse_token_def is_left_parenthesis_def)

lemma parse_expression_product_of_sum:
  assumes "type a = NUMBER" and "type b = NUMBER" and "type c = NUMBER"
    and "type add_op = OPERATOR" and "type mul_op = OPERATOR"
    and "type lp = LPAREN" and "type rp = RPAREN"
  shows "parse_expression [lp, a, add_op, b, rp, mul_op, c] = Inr [a, b, add_op, c, mul_op]"
  using assms
  by (simp add: parse_expression_def parse_token_def is_left_parenthesis_def)

lemma evaluate_expression_postfix:
  assumes "type a = NUMBER" and "type b = NUMBER" and "type c = NUMBER"
    and "type add_op = OPERATOR" and "val add_op = CHR ''+'' # p"
    and "type mul_op = OPERATOR" and "val mul_op = CHR ''*'' # m"
  shows "evaluate_expression A [a, b, c, mul_op, add_op] =
           Inr (float_add A (read_float A (val a))
                  (float_mul A (read_float A (val b)) (read_float A (val c))))"
    and "evaluate_expression A [a, b, mul_op, c, add_op] =
           Inr (float_add A (float_mul A (read_float A (val a)) (read_float A (val b)))
                  (read_float A (val c)))"
    and "evaluate_expression A [a, b, add_op, c, mul_op] =
           Inr (float_mul A (float_add A (read_float A (val a)) (read_float A (val b)))
                  (read_float A (val c)))"
  using assms
  by (simp_all add: evaluate_expression_def evaluate_token_def)

text \<open>
  C6. Tokenizing, compiling and evaluating \<^verbatim>\<open>3 + 4 * 2\<close> yields 11, and
  \<^verbatim>\<open>( 3 + 4 ) * 2\<close> yields 14: the compiler emits \<^verbatim>\<open>3 4 2 * +\<close> and
  \<^verbatim>\<open>3 4 + 2 *\<close>. Multiplication binds tighter than addition on either side: with the
  product first, \<^verbatim>\<open>3 * 4 + 2\<close> yields 14 (the compiler pops the multiplication and
  emits \<^verbatim>\<open>3 4 * 2 +\<close>), and with subtraction, \<^verbatim>\<open>8 - 3 - 2\<close> yields 3 (operators of
  equal precedence are popped, left to right). For all number tokens \<open>a\<close>, \<open>b\<close>, \<open>c\<close>,
  every addition and multiplication token and every pair of parentheses, \<open>a + b * c\<close>
  compiles to \<open>a b c * +\<close> and evaluates to \<open>a + (b * c)\<close>, \<open>a * b + c\<close> compiles to
  \<open>a b * c +\<close> and evaluates to \<open>(a * b) + c\<close>, and \<open>( a + b ) * c\<close> compiles to
  \<open>a b + c *\<close> and evaluates to \<open>(a + b) * c\<close>. The numbers are stated for every
  arithmetic that computes the intermediate results on these small integers exactly, as
  binary32 does; the values 11, 14 and 3 are the numbers read from \<^verbatim>\<open>11\<close>,
  \<^verbatim>\<open>14\<close> and \<^verbatim>\<open>3\<close>.
\<close>

theorem calculate_precedence:
  assumes "float_mul A (read_float A ''4'') (read_float A ''2'') = read_float A ''8''"
    and "float_add A (read_float A ''3'') (read_float A ''8'') = read_float A ''11''"
    and "float_add A (read_float A ''3'') (read_float A ''4'') = read_float A ''7''"
    and "float_mul A (read_float A ''7'') (read_float A ''2'') = read_float A ''14''"
    and "float_mul A (read_float A ''3'') (read_float A ''4'') = read_float A ''12''"
    and "float_add A (read_float A ''12'') (read_float A ''2'') = read_float A ''14''"
    and "float_sub A (read_float A ''8'') (read_float A ''3'') = read_float A ''5''"
    and "float_sub A (read_float A ''5'') (read_float A ''2'') = read_float A ''3''"
    and "type a = NUMBER" and "type b = NUMBER" and "type c = NUMBER"
    and "type add_op = OPERATOR" and "precedence add_op = Prec_3" and "val add_op = CHR ''+'' # p"
    and "type mul_op = OPERATOR" and "precedence mul_op = Prec_2" and "val mul_op = CHR ''*'' # m"
    and "type lp = LPAREN" and "type rp = RPAREN"
  shows "calculate A ''3 + 4 * 2'' = Inr (read_float A ''11'') \<and>
         calculate A ''( 3 + 4 ) * 2'' = Inr (read_float A ''14'') \<and>
         calculate A ''3 * 4 + 2'' = Inr (read_float A ''14'') \<and>
         calculate A ''8 - 3 - 2'' = Inr (read_float A ''3'') \<and>
         parse_expression [a, add_op, b, mul_op, c] = Inr [a, b, c, mul_op, add_op] \<and>
         parse_expression [a, mul_op, b, add_op, c] = Inr [a, b, mul_op, c, add_op] \<and>
         parse_expression [lp, a, add_op, b, rp, mul_op, c] = Inr [a, b, add_op, c, mul_op] \<and>
         evaluate_expression A [a, b, c, mul_op, add_op] =
           Inr (float_add A (read_float A (val a))
                  (float_mul A (read_float A (val b)) (read_float A (val c)))) \<and>
         evaluate_expression A [a, b, mul_op, c, add_op] =
           Inr (float_add A (float_mul A (read_float A (val a)) (read_float A (val b)))
                  (read_float A (val c))) \<and>
         evaluate_expression A [a, b, add_op, c, mul_op] =
           Inr (float_mul A (float_add A (read_float A (val a)) (read_float A (val b)))
                  (read_float A (val c)))"
proof -
  have "calculate A ''3 + 4 * 2'' =
          Inr (float_add A (read_float A ''3'') (float_mul A (read_float A ''4'') (read_float A ''2'')))"
    by (simp add: run_defs)
  with assms(1,2) have sum_first: "calculate A ''3 + 4 * 2'' = Inr (read_float A ''11'')"
    by simp
  have "calculate A ''( 3 + 4 ) * 2'' =
          Inr (float_mul A (float_add A (read_float A ''3'') (read_float A ''4'')) (read_float A ''2''))"
    by (simp add: run_defs)
  with assms(3,4) have parenthesised: "calculate A ''( 3 + 4 ) * 2'' = Inr (read_float A ''14'')"
    by simp
  have "calculate A ''3 * 4 + 2'' =
          Inr (float_add A (float_mul A (read_float A ''3'') (read_float A ''4'')) (read_float A ''2''))"
    by (simp add: run_defs)
  with assms(5,6) have product_first: "calculate A ''3 * 4 + 2'' = Inr (read_float A ''14'')"
    by simp
  have "calculate A ''8 - 3 - 2'' =
          Inr (float_sub A (float_sub A (read_float A ''8'') (read_float A ''3'')) (read_float A ''2''))"
    by (simp add: run_defs)
  with assms(7,8) have left_to_right: "calculate A ''8 - 3 - 2'' = Inr (read_float A ''3'')"
    by simp
  note compiled = parse_expression_sum_of_product [of a b c add_op mul_op]
    parse_expression_product_of_sum [of a b c add_op mul_op lp rp]
  note evaluated = evaluate_expression_postfix [of a b c add_op p mul_op m A]
  from sum_first parenthesised product_first left_to_right show ?thesis
    using compiled evaluated assms(9-19) by simp
qed

theorem calculate_precedence_witness:
  "calculate small_arith ''3 + 4 * 2'' = Inr (Exact 11) \<and>
   calculate small_arith ''( 3 + 4 ) * 2'' = Inr (Exact 14) \<and>
   calculate small_arith ''3 * 4 + 2'' = Inr (Exact 14) \<and>
   calculate small_arith ''8 - 3 - 2'' = Inr (Exact 3) \<and>
   parse_expression
     [\<lparr>type = NUMBER, precedence = NONE, fixity = LEFT, val = ''3''\<rparr>,
      \<lparr>type = OPERATOR, precedence = Prec_2, fixity = LEFT, val = ''*''\<rparr>,
      \<lparr>type = NUMBER, precedence = NONE, fixity = LEFT, val = ''4''\<rparr>,
      \<lparr>type = OPERATOR, precedence = Prec_3, fixity = LEFT, val = ''+''\<rparr>,
      \<lparr>type = NUMBER, precedence = NONE, fixity = LEFT, val = ''2''\<rparr>] =
   Inr [\<lparr>type = NUMBER, precedence = NONE, fixity = LEFT, val = ''3''\<rparr>,
        \<lparr>type = NUMBER, precedence = NONE, fixity = LEFT, val = ''4''\<rparr>,
        \<lparr>type = OPERATOR, precedence = Prec_2, fixity = LEFT, val = ''*''\<rparr>,
        \<lparr>type = NUMBER, precedence = NONE, fixity = LEFT, val = ''2''\<rparr>,
        \<lparr>type = OPERATOR, precedence = Prec_3, fixity = LEFT, val = ''+''\<rparr>] \<and>
   evaluate_expression small_arith
     [\<lparr>type = NUMBER, precedence = NONE, fixity = LEFT, val = ''3''\<rparr>,
      \<lparr>type = NUMBER, precedence = NONE, fixity = LEFT, val = ''4''\<rparr>,
      \<lparr>type = OPERATOR, precedence = Prec_2, fixity = LEFT, val = ''*''\<rparr>,
      \<lparr>type = NUMBER, precedence = NONE, fixity = LEFT, val = ''2''\<rparr>,
      \<lparr>type = OPERATOR, precedence = Prec_3, fixity = LEFT, val = ''+''\<rparr>] = Inr (Exact 14)"
proof -
  have r: "read_float small_arith ''11'' = Exact 11" "read_float small_arith ''14'' = Exact 14"
    "read_float small_arith ''3'' = Exact 3" "read_float small_arith ''4'' = Exact 4"
    "read_float small_arith ''2'' = Exact 2"
    by (simp_all add: small_defs)
  have m: "float_add small_arith (float_mul small_arith (Exact 3) (Exact 4)) (Exact 2) = Exact 14"
    by (simp add: small_defs)
  show ?thesis
    using calculate_precedence
      [where A = small_arith
         and a = "\<lparr>type = NUMBER, precedence = NONE, fixity = LEFT, val = ''3''\<rparr>"
         and b = "\<lparr>type = NUMBER, precedence = NONE, fixity = LEFT, val = ''4''\<rparr>"
         and c = "\<lparr>type = NUMBER, precedence = NONE, fixity = LEFT, val = ''2''\<rparr>"
         and add_op = "\<lparr>type = OPERATOR, precedence = Prec_3, fixity = LEFT, val = ''+''\<rparr>"
         and p = "[]"
         and mul_op = "\<lparr>type = OPERATOR, precedence = Prec_2, fixity = LEFT, val = ''*''\<rparr>"
         and m = "[]"
         and lp = "\<lparr>type = LPAREN, precedence = Prec_1, fixity = LEFT, val = ''(''\<rparr>"
         and rp = "\<lparr>type = RPAREN, precedence = Prec_1, fixity = LEFT, val = '')''\<rparr>"]
    unfolding r m
    by (simp add: small_defs)
qed

text \<open>
  C7. An operator token takes the value popped first as its right operand and the value
  popped second as its left operand, for each of the four operators; so the postfix
  sequences \<^verbatim>\<open>a b -\<close> and \<^verbatim>\<open>a b /\<close> evaluate to \<open>a - b\<close> and \<open>a / b\<close>, for all
  number tokens \<open>a\<close> and \<open>b\<close>.
\<close>

theorem operator_pops_right_operand_first:
  assumes "type a = NUMBER" and "type b = NUMBER"
    and "type op_sub = OPERATOR" and "val op_sub = CHR ''-'' # m"
    and "type op_div = OPERATOR" and "val op_div = CHR ''/'' # d"
    and "type op_add = OPERATOR" and "val op_add = CHR ''+'' # p"
    and "type op_mul = OPERATOR" and "val op_mul = CHR ''*'' # t"
  shows "evaluate_token A op_sub (first_pop # second_pop # rest) = Inr (float_sub A second_pop first_pop # rest) \<and>
         evaluate_token A op_div (first_pop # second_pop # rest) = Inr (float_div A second_pop first_pop # rest) \<and>
         evaluate_token A op_add (first_pop # second_pop # rest) = Inr (float_add A second_pop first_pop # rest) \<and>
         evaluate_token A op_mul (first_pop # second_pop # rest) = Inr (float_mul A second_pop first_pop # rest) \<and>
         evaluate_expression A [a, b, op_sub] = Inr (float_sub A (read_float A (val a)) (read_float A (val b))) \<and>
         evaluate_expression A [a, b, op_div] = Inr (float_div A (read_float A (val a)) (read_float A (val b)))"
  using assms by (simp add: evaluate_expression_def evaluate_token_def)

theorem operator_pops_right_operand_first_witness:
  "evaluate_expression small_arith
     [\<lparr>type = NUMBER, precedence = NONE, fixity = LEFT, val = ''7''\<rparr>,
      \<lparr>type = NUMBER, precedence = NONE, fixity = LEFT, val = ''2''\<rparr>,
      \<lparr>type = OPERATOR, precedence = Prec_3, fixity = LEFT, val = ''-''\<rparr>] = Inr (Exact 5) \<and>
   evaluate_expression small_arith
     [\<lparr>type = NUMBER, precedence = NONE, fixity = LEFT, val = ''7''\<rparr>,
      \<lparr>type = NUMBER, precedence = NONE, fixity = LEFT, val = ''2''\<rparr>,
      \<lparr>type = OPERATOR, precedence = Prec_2, fixity = LEFT, val = ''/''\<rparr>] = Inr Untracked \<and>
   evaluate_token small_arith \<lparr>type = OPERATOR, precedence = Prec_2, fixity = LEFT, val = ''/''\<rparr>
     [Exact 2, Exact 8, Exact 1] = Inr [Exact 4, Exact 1]"
  using operator_pops_right_operand_first
    [where A = small_arith
       and a = "\<lparr>type = NUMBER, precedence = NONE, fixity = LEFT, val = ''7''\<rparr>"
       and b = "\<lparr>type = NUMBER, precedence = NONE, fixity = LEFT, val = ''2''\<rparr>"
       and op_sub = "\<lparr>type = OPERATOR, precedence = Prec_3, fixity = LEFT, val = ''-''\<rparr>"
       and m = "[]"
       and op_div = "\<lparr>type = OPERATOR, precedence = Prec_2, fixity = LEFT, val = ''/''\<rparr>"
       and d = "[]"
       and op_add = "\<lparr>type = OPERATOR, precedence = Prec_3, fixity = LEFT, val = ''+''\<rparr>"
       and p = "[]"
       and op_mul = "\<lparr>type = OPERATOR, precedence = Prec_2, fixity = LEFT, val = ''*''\<rparr>"
       and t = "[]"
       and first_pop = "Exact 2" and second_pop = "Exact 8" and rest = "[Exact 1]"]
  by (simp add: small_defs)



subsection \<open>Registry and \<^verbatim>\<open>apply\<close>\<close>

lemma register_commands_registry: "register_commands rv A = Inr (registry rv A)"
  by (simp add: register_commands_def registry_def keyed_def base_commands_def
        register_command_def new_command_def apply_command_def)

lemma map_of_keyed_base_sub:
  "map_of (keyed (base_commands rv A)) ''sub'' = Some (new_command ''sub'' 2 (sub_action A))"
  by (simp add: keyed_def base_commands_def new_command_def)

lemma lookup_key_no_nul: "CHR 0x00 \<notin> set s \<Longrightarrow> lookup_key rv s = s"
  by (cases rv) (auto simp: lookup_key_def c_str_def)

lemma registry_keys:
  "map fst (registry rv A) = [''quit'', ''echo'', ''add'', ''sub'', ''mul'', ''div'', ''hex'', ''bin'', ''iota'', ''apply'']"
  by (simp add: registry_def keyed_def base_commands_def new_command_def apply_command_def)

text \<open>
  C1 (as the code has it). \<^verbatim>\<open>apply\<close> on \<^verbatim>\<open>sub 10 1 2 3\<close> keeps \<^verbatim>\<open>10\<close> as the
  fixed argument and invokes \<^verbatim>\<open>sub\<close> once for each of \<^verbatim>\<open>1\<close>, \<^verbatim>\<open>2\<close>, \<^verbatim>\<open>3\<close> in
  input order, with the streamed word pushed at the \<^emph>\<open>front\<close>: \<^verbatim>\<open>sub(1, 10)\<close>,
  \<^verbatim>\<open>sub(2, 10)\<close>, \<^verbatim>\<open>sub(3, 10)\<close>. The result is the first output of each
  invocation, that is \<open>1 - 10\<close>, \<open>2 - 10\<close>, \<open>3 - 10\<close> as printed. For both revisions
  and every arithmetic.
\<close>

theorem apply_sub_streams_first_operand:
  "invoke_with (apply_command rv A) [''sub'', ''10'', ''1'', ''2'', ''3''] w =
     Inr ([show_float A (float_sub A (read_float A ''1'') (read_float A ''10'')),
           show_float A (float_sub A (read_float A ''2'') (read_float A ''10'')),
           show_float A (float_sub A (read_float A ''3'') (read_float A ''10''))],
          w\<lparr> invoked := invoked w @
               [(''apply'', [''sub'', ''10'', ''1'', ''2'', ''3'']),
                (''sub'', [''1'', ''10'']), (''sub'', [''2'', ''10'']), (''sub'', [''3'', ''10''])] \<rparr>)"
proof -
  have key: "lookup_key rv ''sub'' = ''sub''"
    by (simp add: lookup_key_no_nul)
  show ?thesis
    by (simp add: invoke_with_def apply_command_def new_command_def apply_action_def PTRDIFF_MAX_def deque_at_def
          key map_of_keyed_base_sub sub_action_def float_action_def Let_def)
qed

text \<open>
  C1 as claimed, that the result is \<^verbatim>\<open>9 8 7\<close> from \<^verbatim>\<open>sub(10, 1)\<close>,
  \<^verbatim>\<open>sub(10, 2)\<close>, \<^verbatim>\<open>sub(10, 3)\<close>, fails: with exact arithmetic on small integers
  the result is \<^verbatim>\<open>-9 -8 -7\<close>.
\<close>

theorem apply_sub_counterexample:
  "map_sum id fst (invoke_with (apply_command First small_arith)
      [''sub'', ''10'', ''1'', ''2'', ''3''] initial_world) = Inr [''-9'', ''-8'', ''-7''] \<and>
   map_sum id fst (invoke_with (apply_command First small_arith)
      [''sub'', ''10'', ''1'', ''2'', ''3''] initial_world) \<noteq> Inr [''9'', ''8'', ''7''] \<and>
   map_sum id fst (invoke_with (apply_command Second small_arith)
      [''sub'', ''10'', ''1'', ''2'', ''3''] initial_world) = Inr [''-9'', ''-8'', ''-7'']"
proof -
  have s: "show_base 10 9 = ''9''" "show_base 10 8 = ''8''" "show_base 10 7 = ''7''"
    by (simp_all add: show_base.simps digit_char_def)
  have key: "\<And>rv. lookup_key rv ''sub'' = ''sub''"
    by (simp add: lookup_key_no_nul)
  have "\<And>rv. map_sum id fst (invoke_with (apply_command rv small_arith)
      [''sub'', ''10'', ''1'', ''2'', ''3''] initial_world) = Inr [''-9'', ''-8'', ''-7'']"
    by (simp add: invoke_with_def apply_command_def new_command_def apply_action_def PTRDIFF_MAX_def deque_at_def
          key map_of_keyed_base_sub sub_action_def float_action_def Let_def small_defs s)
  then show ?thesis by simp
qed

subsection \<open>Suggestions\<close>

lemma calculate_edit_distance_le:
  "calculate_edit_distance a b \<le> max (length a) (length b)"
  by (cases a; cases b) (simp_all add: calculate_edit_distance_closed)

lemma is_similar_no_wrap:
  assumes "commandName \<noteq> [] \<or> value \<noteq> []"
    and "length commandName < 2 ^ 64" and "length value < 2 ^ 64"
  shows "is_similar commandName value =
           Inr (70 < (max (length commandName) (length value) - calculate_edit_distance commandName value)
                       div max (length commandName) (length value) * 100)"
proof -
  define sz where "sz = max (length commandName) (length value)"
  define distance where "distance = calculate_edit_distance commandName value"
  have pos: "0 < sz" using assms(1) by (auto simp: sz_def less_max_iff_disj)
  have small: "sz < 2 ^ 64" using assms(2,3) by (simp add: sz_def)
  have le: "distance \<le> sz"
    unfolding sz_def distance_def by (rule calculate_edit_distance_le)
  then have sub: "(sz + 2 ^ 64 - distance) mod 2 ^ 64 = sz - distance"
    using small by (simp add: Nat.add_diff_assoc2 [symmetric] del: Nat.add_diff_assoc2)
  have "(sz - distance) div sz \<le> sz div sz"
    by (rule div_le_mono) simp
  then have "(sz - distance) div sz \<le> 1"
    using pos by simp
  then have "(sz - distance) div sz * 100 \<le> 100" by simp
  then have "((sz - distance) div sz * 100) mod 2 ^ 64 = (sz - distance) div sz * 100"
    by simp
  with sub pos show ?thesis
    by (simp add: is_similar_def Let_def sz_def [symmetric] distance_def [symmetric])
qed

lemma is_similar_zero_distance:
  assumes "commandName \<noteq> [] \<or> value \<noteq> []"
    and "length commandName < 2 ^ 64" and "length value < 2 ^ 64"
  shows "is_similar commandName value = Inr (calculate_edit_distance commandName value = 0)"
proof -
  define sz where "sz = max (length commandName) (length value)"
  define distance where "distance = calculate_edit_distance commandName value"
  have pos: "0 < sz" using assms(1) by (auto simp: sz_def less_max_iff_disj)
  have "(70 < (sz - distance) div sz * 100) = (distance = 0)"
  proof (cases "distance = 0")
    case True
    with pos show ?thesis by simp
  next
    case False
    with pos have "sz - distance < sz" by simp
    then have "(sz - distance) div sz = 0" by simp
    with False show ?thesis by simp
  qed
  then show ?thesis
    using is_similar_no_wrap [OF assms] by (simp add: sz_def distance_def)
qed

lemma similar_commands_filter:
  "\<forall>value \<in> set keys. is_similar commandName value = Inr (p value) \<Longrightarrow>
   similar_commands keys commandName = Inr (filter p keys)"
  by (induction keys) simp_all

lemma similar_commands_exactly:
  "similar_commands keys commandName = Inr suggestions \<Longrightarrow>
   suggestions = filter (\<lambda>value. is_similar commandName value = Inr True) keys"
  by (induction keys arbitrary: suggestions) (auto split: sum.splits)

lemma filter_eq_distinct: "distinct xs \<Longrightarrow> x \<in> set xs \<Longrightarrow> filter (\<lambda>y. y = x) xs = [x]"
  by (induction xs) (auto simp: filter_empty_conv)

lemma is_similar_eco:
  assumes "value \<in> {''quit'', ''echo'', ''add'', ''sub'', ''mul'', ''div'', ''hex'', ''bin'', ''iota'', ''apply''}"
  shows "is_similar ''eco'' value = Inr (value = ''echo'')"
  using assms by (auto simp: is_similar_def Let_def)

lemma handle_non_existing_eco:
  assumes keys: "set keys = {''quit'', ''echo'', ''add'', ''sub'', ''mul'', ''div'', ''hex'', ''bin'', ''iota'', ''apply''}"
    and dist: "distinct keys"
  shows "similar_commands keys ''eco'' = Inr [''echo'']"
    and "handle_non_existing_command keys ''eco'' w =
           Inr (w\<lparr> stdout := stdout w @ ''the command `eco` doesn't exist. did you mean:\<newline>    - echo\<newline>'' \<rparr>)"
proof -
  have "\<forall>value \<in> set keys. is_similar ''eco'' value = Inr (value = ''echo'')"
    using keys is_similar_eco by blast
  then have "similar_commands keys ''eco'' = Inr (filter (\<lambda>value. value = ''echo'') keys)"
    by (rule similar_commands_filter)
  moreover have "''echo'' \<in> set keys" using keys by simp
  ultimately show s: "similar_commands keys ''eco'' = Inr [''echo'']"
    using dist by (simp add: filter_eq_distinct)
  show "handle_non_existing_command keys ''eco'' w =
           Inr (w\<lparr> stdout := stdout w @ ''the command `eco` doesn't exist. did you mean:\<newline>    - echo\<newline>'' \<rparr>)"
    by (simp add: handle_non_existing_command_def s println_def print_def)
qed

lemma fnParseCommand_eco:
  assumes keys: "set (map fst commands) = {''quit'', ''echo'', ''add'', ''sub'', ''mul'', ''div'', ''hex'', ''bin'', ''iota'', ''apply''}"
    and dist: "distinct (map fst commands)"
  shows "fnParseCommand rv commands (''eco'' # arguments) w =
           Inr (None, w\<lparr> stdout := stdout w @ ''the command `eco` doesn't exist. did you mean:\<newline>    - echo\<newline>'' \<rparr>)"
proof -
  have "''eco'' \<notin> set (map fst commands)" unfolding keys by simp
  then have "map_of commands ''eco'' = None"
    by (simp add: map_of_eq_None_iff)
  moreover have "lookup_key rv ''eco'' = ''eco''"
    by (simp add: lookup_key_no_nul)
  ultimately show ?thesis
    by (simp add: fnParseCommand_def front_is_pipe_def find_command_def
          handle_non_existing_eco(2) [OF keys dist])
qed

text \<open>
  What the code does. For a registry with the ten names of the primitives, in any
  iteration order, the lines \<^verbatim>\<open>eco\<close> and \<^verbatim>\<open>eco 1 2\<close> leave the interpreter as it
  was (nothing is queued) and print the message with the one suggestion \<^verbatim>\<open>echo\<close>.
  The suggestions are exactly the keys that pass the test
  \<^verbatim>\<open>(size - distance) / size * 100 > 70\<close> on \<^verbatim>\<open>calculate_edit_distance\<close>, where
  \<open>/\<close> is the truncating division of \<^verbatim>\<open>std::size_t\<close> (no subtraction or product
  wraps around). The quotient is 0 or 1, so the test holds exactly when the computed
  distance is 0 and the threshold plays no part.
\<close>

lemma eco_suggests_echo:
  assumes keys: "set (map fst (availableCommands_m I)) =
      {''quit'', ''echo'', ''add'', ''sub'', ''mul'', ''div'', ''hex'', ''bin'', ''iota'', ''apply''}"
    and dist: "distinct (map fst (availableCommands_m I))"
  shows "enqueue_command rv ''eco'' I w =
           Inr (I, w\<lparr> stdout := stdout w @ ''the command `eco` doesn't exist. did you mean:\<newline>    - echo\<newline>'' \<rparr>) \<and>
         enqueue_command rv ''eco 1 2'' I w =
           Inr (I, w\<lparr> stdout := stdout w @ ''the command `eco` doesn't exist. did you mean:\<newline>    - echo\<newline>'' \<rparr>) \<and>
         similar_commands (map fst (availableCommands_m I)) ''eco'' = Inr [''echo''] \<and>
         (\<forall>keys commandName suggestions.
            similar_commands keys commandName = Inr suggestions \<longrightarrow>
            suggestions = filter (\<lambda>value. is_similar commandName value = Inr True) keys) \<and>
         (\<forall>commandName value.
            (commandName \<noteq> [] \<or> value \<noteq> []) \<and> length commandName < 2 ^ 64 \<and> length value < 2 ^ 64 \<longrightarrow>
            is_similar commandName value =
              Inr (70 < (max (length commandName) (length value) - calculate_edit_distance commandName value)
                          div max (length commandName) (length value) * 100) \<and>
            is_similar commandName value = Inr (calculate_edit_distance commandName value = 0))"
proof (intro conjI allI impI)
  show "enqueue_command rv ''eco'' I w =
           Inr (I, w\<lparr> stdout := stdout w @ ''the command `eco` doesn't exist. did you mean:\<newline>    - echo\<newline>'' \<rparr>)"
    by (simp add: enqueue_command_def enqueue_words_def split_space_def
          fnParseCommand_eco [OF keys dist])
  show "enqueue_command rv ''eco 1 2'' I w =
           Inr (I, w\<lparr> stdout := stdout w @ ''the command `eco` doesn't exist. did you mean:\<newline>    - echo\<newline>'' \<rparr>)"
    by (simp add: enqueue_command_def enqueue_words_def split_space_def front_is_pipe_def
          fnParseCommand_eco [OF keys dist])
  show "similar_commands (map fst (availableCommands_m I)) ''eco'' = Inr [''echo'']"
    by (rule handle_non_existing_eco(1) [OF keys dist])
next
  fix keys commandName suggestions
  assume "similar_commands keys commandName = Inr suggestions"
  then show "suggestions = filter (\<lambda>value. is_similar commandName value = Inr True) keys"
    by (rule similar_commands_exactly)
next
  fix commandName known :: string
  assume a: "(commandName \<noteq> [] \<or> known \<noteq> []) \<and> length commandName < 2 ^ 64 \<and> length known < 2 ^ 64"
  then show "is_similar commandName known =
              Inr (70 < (max (length commandName) (length known) - calculate_edit_distance commandName known)
                          div max (length commandName) (length known) * 100)"
    by (simp add: is_similar_no_wrap)
  from a show "is_similar commandName known = Inr (calculate_edit_distance commandName known = 0)"
    by (simp add: is_similar_zero_distance)
qed

lemmas line_defs = enqueue_command_def enqueue_words_def split_space_def front_is_pipe_def
  fnParseCommand_def find_command_def lookup_key_def push_back_argument_def push_subcommand_def
  c_str_def new_interpreter_def

lemmas registry_defs = registry_def keyed_def base_commands_def new_command_def apply_command_def

lemmas message_defs = handle_non_existing_command_def is_similar_def print_def println_def Let_def

lemmas outcome_defs = outcome_def pipeline_def stage_def initial_world_def

text \<open>
  C4. The claim: \<^verbatim>\<open>eco\<close> queues nothing and gets the suggestion \<^verbatim>\<open>echo\<close>, since a
  known name is suggested exactly when the percentage \<open>(maxLen - distance) / maxLen * 100\<close>
  is strictly greater than 70. The code divides in \<^verbatim>\<open>std::size_t\<close>, so its quotient is
  0 whenever the distance is not 0, and the rule of the claim is not what it computes.
  On the line \<^verbatim>\<open>xcho\<close> the name \<^verbatim>\<open>echo\<close> is one substitution away, a similarity of
  75 percent, and the code prints no suggestion at all. On \<^verbatim>\<open>e\<close> the similarity to
  \<^verbatim>\<open>echo\<close> is 25 percent and the code suggests it. On \<^verbatim>\<open>eco\<close> itself nothing
  is queued and \<^verbatim>\<open>echo\<close> is suggested, but only because
  \<^verbatim>\<open>calculate_edit_distance\<close> returns 0 there where the distance is 1: with the
  distance 1 the truncated quotient would be 0 as well.
\<close>

theorem suggestion_rule_truncates:
  "similarity_percent ''xcho'' ''echo'' = 75 \<and>
   70 < similarity_percent ''xcho'' ''echo'' \<and>
   calculate_edit_distance ''xcho'' ''echo'' = 1 \<and>
   is_similar ''xcho'' ''echo'' = Inr False \<and>
   similar_commands
     [''quit'', ''echo'', ''add'', ''sub'', ''mul'', ''div'', ''hex'', ''bin'', ''iota'', ''apply'']
     ''xcho'' = Inr [] \<and>
   outcome (enqueue_command First ''xcho''
      (new_interpreter (registry First small_arith)) initial_world) =
     Inr ([], ''the command `xcho` doesn't exist.\<newline>'') \<and>
   outcome (enqueue_command Second ''xcho''
      (new_interpreter (registry Second small_arith)) initial_world) =
     Inr ([], ''the command `xcho` doesn't exist.\<newline>'') \<and>
   similarity_percent ''e'' ''echo'' = 25 \<and>
   similar_commands
     [''quit'', ''echo'', ''add'', ''sub'', ''mul'', ''div'', ''hex'', ''bin'', ''iota'', ''apply'']
     ''e'' = Inr [''echo''] \<and>
   similarity_percent ''eco'' ''echo'' = 75 \<and>
   calculate_edit_distance ''eco'' ''echo'' = 0 \<and>
   (70::nat) < (4 - 0) div 4 * 100 \<and> \<not> (70::nat) < (4 - 1) div 4 * 100 \<and>
   outcome (enqueue_command First ''eco''
      (new_interpreter (registry First small_arith)) initial_world) =
     Inr ([], ''the command `eco` doesn't exist. did you mean:\<newline>    - echo\<newline>'')"
proof -
  have percent: "similarity_percent ''xcho'' ''echo'' = 75"
    "similarity_percent ''e'' ''echo'' = 25" "similarity_percent ''eco'' ''echo'' = 75"
    by (simp_all add: similarity_percent_def Let_def)
  have distance: "calculate_edit_distance ''xcho'' ''echo'' = 1"
    "calculate_edit_distance ''eco'' ''echo'' = 0"
    by (simp_all add: calculate_edit_distance_closed)
  have test: "is_similar ''xcho'' ''echo'' = Inr False"
    by (simp add: is_similar_def Let_def)
  have none: "similar_commands
     [''quit'', ''echo'', ''add'', ''sub'', ''mul'', ''div'', ''hex'', ''bin'', ''iota'', ''apply'']
     ''xcho'' = Inr []"
    by (simp add: is_similar_def Let_def)
  have wrong: "similar_commands
     [''quit'', ''echo'', ''add'', ''sub'', ''mul'', ''div'', ''hex'', ''bin'', ''iota'', ''apply'']
     ''e'' = Inr [''echo'']"
    by (simp add: is_similar_def Let_def)
  have first: "outcome (enqueue_command First ''xcho''
      (new_interpreter (registry First small_arith)) initial_world) =
     Inr ([], ''the command `xcho` doesn't exist.\<newline>'')"
    by (simp add: line_defs registry_defs message_defs outcome_defs)
  have second: "outcome (enqueue_command Second ''xcho''
      (new_interpreter (registry Second small_arith)) initial_world) =
     Inr ([], ''the command `xcho` doesn't exist.\<newline>'')"
    by (simp add: line_defs registry_defs message_defs outcome_defs)
  have eco: "outcome (enqueue_command First ''eco''
      (new_interpreter (registry First small_arith)) initial_world) =
     Inr ([], ''the command `eco` doesn't exist. did you mean:\<newline>    - echo\<newline>'')"
    by (simp add: line_defs registry_defs message_defs outcome_defs)
  from percent distance test none wrong first second eco show ?thesis
    by simp
qed

subsection \<open>Pipeline parser\<close>

lemmas chunk_defs = is_chunk_def begins_with_pipe_def chunk_name_def resolves_def
  fails_to_resolve_def lookup_key_def

lemma front_is_pipe_nonempty:
  "front_is_pipe word = (if word = [] then Inl UndefinedBehaviour else Inr (begins_with_pipe word))"
  by (cases word) (simp_all add: front_is_pipe_def begins_with_pipe_def)

lemma rest_of_chunk_words:
  assumes "[] \<notin> set words" and "list_all (\<lambda>word. \<not> begins_with_pipe word) words"
    and "later = [] \<or> begins_with_pipe (hd later)"
  shows "rest_of_chunk (words @ later) = Inr (words, later)"
  using assms
proof (induction words)
  case Nil
  show ?case
  proof (cases later)
    case Nil
    then show ?thesis by simp
  next
    case (Cons m ms)
    with Nil.prems have "begins_with_pipe m" by simp
    then have "m \<noteq> []" by (auto simp: begins_with_pipe_def)
    with \<open>begins_with_pipe m\<close> Cons show ?thesis
      by (simp add: front_is_pipe_nonempty)
  qed
next
  case (Cons word words)
  then show ?case
    by (auto simp: front_is_pipe_nonempty)
qed

lemma drop_while_pipe_words:
  "[] \<notin> set words \<Longrightarrow> drop_while_pipe words = Inr (dropWhile begins_with_pipe words)"
  by (induction words) (auto simp: front_is_pipe_nonempty)

lemma invoked_print [simp]: "invoked (print s w) = invoked w"
  by (simp add: print_def)

lemma invoked_println [simp]: "invoked (println s w) = invoked w"
  by (simp add: println_def)

lemma invoked_foldl_println [simp]:
  "invoked (foldl (\<lambda>w command. println (f command) w) w commands) = invoked w"
  by (induction commands arbitrary: w) simp_all

lemma similar_commands_defined:
  "commandName \<noteq> [] \<Longrightarrow> \<exists>similarCommands. similar_commands keys commandName = Inr similarCommands"
proof (induction keys)
  case Nil
  then show ?case by simp
next
  case (Cons key keys)
  then obtain similarCommands where "similar_commands keys commandName = Inr similarCommands"
    by blast
  moreover from Cons.prems have "\<exists>keep. is_similar commandName key = Inr keep"
    by (simp add: is_similar_def Let_def)
  ultimately show ?case by auto
qed

lemma handle_non_existing_command_defined:
  assumes "commandName \<noteq> []"
  shows "\<exists>w'. handle_non_existing_command keys commandName w = Inr w' \<and> invoked w' = invoked w"
proof -
  from similar_commands_defined [OF assms]
  obtain similarCommands where "similar_commands keys commandName = Inr similarCommands"
    by blast
  then show ?thesis
    by (simp add: handle_non_existing_command_def)
qed

lemma chunk_name_nonempty:
  assumes "[] \<notin> set chunk" and "chunk_name chunk = Some name"
  shows "name \<noteq> []"
proof -
  from assms(2) obtain rest where "dropWhile begins_with_pipe chunk = name # rest"
    by (auto simp: chunk_name_def split: list.splits)
  then have "name \<in> set (dropWhile begins_with_pipe chunk)" by simp
  then have "name \<in> set chunk" by (rule set_dropWhileD)
  with assms(1) show ?thesis by auto
qed

lemma fnParseCommand_resolves:
  assumes "is_chunk chunk" and "resolves rv commands chunk"
  shows "\<exists>command. fnParseCommand rv commands chunk w = Inr (Some command, w)"
proof -
  from assms(1) have words: "[] \<notin> set chunk" by (simp add: is_chunk_def)
  from assms(2) obtain name command where "chunk_name chunk = Some name"
    and found: "map_of commands (lookup_key rv name) = Some command"
    by (auto simp: resolves_def split: option.splits)
  then obtain arguments where "dropWhile begins_with_pipe chunk = name # arguments"
    by (auto simp: chunk_name_def split: list.splits)
  with found show ?thesis
    by (simp add: fnParseCommand_def drop_while_pipe_words [OF words] find_command_def)
qed

lemma fnParseCommand_fails:
  assumes "is_chunk chunk" and "fails_to_resolve rv commands chunk"
  shows "\<exists>w'. fnParseCommand rv commands chunk w = Inr (None, w') \<and> invoked w' = invoked w"
proof -
  from assms(1) have words: "[] \<notin> set chunk" by (simp add: is_chunk_def)
  from assms(2) obtain name where name: "chunk_name chunk = Some name"
    and missing: "map_of commands (lookup_key rv name) = None"
    by (auto simp: fails_to_resolve_def split: option.splits)
  then obtain arguments where view: "dropWhile begins_with_pipe chunk = name # arguments"
    by (auto simp: chunk_name_def split: list.splits)
  from chunk_name_nonempty [OF words name] have "name \<noteq> []" .
  from handle_non_existing_command_defined [OF this, of "map fst commands" w]
  obtain w' where "handle_non_existing_command (map fst commands) name w = Inr w'"
    and "invoked w' = invoked w" by blast
  with view missing show ?thesis
    by (simp add: fnParseCommand_def drop_while_pipe_words [OF words] find_command_def)
qed

lemma hd_begins_with_pipe_chunks:
  assumes "\<forall>g \<in> set good. is_chunk g \<and> begins_with_pipe (hd g)"
    and "bad \<noteq> []" and "begins_with_pipe (hd bad)"
  shows "begins_with_pipe (hd (concat good @ bad @ later))"
proof (cases good)
  case Nil
  with assms show ?thesis by simp
next
  case (Cons g gs)
  with assms(1) have "g \<noteq> []" and "begins_with_pipe (hd g)" by (simp_all add: is_chunk_def)
  with Cons show ?thesis by simp
qed

lemma parse_subcommands_fails:
  assumes "\<forall>g \<in> set good. is_chunk g \<and> begins_with_pipe (hd g) \<and> resolves rv commands g"
    and "is_chunk bad" and "begins_with_pipe (hd bad)" and "fails_to_resolve rv commands bad"
    and "later = [] \<or> begins_with_pipe (hd later)"
  shows "\<exists>w'. parse_subcommands rv commands masterCommand (concat good @ bad @ later) w = Inr (None, w') \<and>
              invoked w' = invoked w"
  using assms(1)
proof (induction good arbitrary: masterCommand)
  case Nil
  from assms(2) obtain first words where bad: "bad = first # words"
    by (cases bad) (simp_all add: is_chunk_def)
  with assms(2) have "[] \<notin> set words" and "list_all (\<lambda>word. \<not> begins_with_pipe word) words"
    by (auto simp: is_chunk_def)
  from rest_of_chunk_words [OF this assms(5)]
  have "rest_of_chunk (words @ later) = Inr (words, later)" .
  moreover from fnParseCommand_fails [OF assms(2,4), of w]
  obtain w' where "fnParseCommand rv commands (first # words) w = Inr (None, w')"
    and "invoked w' = invoked w" unfolding bad by blast
  ultimately show ?case using bad by simp
next
  case (Cons g good)
  then have g: "is_chunk g" "resolves rv commands g"
    and rest: "\<forall>g \<in> set good. is_chunk g \<and> begins_with_pipe (hd g) \<and> resolves rv commands g"
    by simp_all
  from g(1) obtain first words where gw: "g = first # words"
    by (cases g) (simp_all add: is_chunk_def)
  with g(1) have "[] \<notin> set words" and "list_all (\<lambda>word. \<not> begins_with_pipe word) words"
    by (auto simp: is_chunk_def)
  moreover have "begins_with_pipe (hd (concat good @ bad @ later))"
    using rest assms(2,3) by (intro hd_begins_with_pipe_chunks) (auto simp: is_chunk_def)
  ultimately have "rest_of_chunk (words @ concat good @ bad @ later) = Inr (words, concat good @ bad @ later)"
    by (intro rest_of_chunk_words) simp_all
  moreover from fnParseCommand_resolves [OF g, of w]
  obtain subcommand where "fnParseCommand rv commands (first # words) w = Inr (Some subcommand, w)"
    unfolding gw by blast
  moreover from Cons.IH [OF rest, of "push_subcommand subcommand masterCommand"]
  obtain w' where "parse_subcommands rv commands (push_subcommand subcommand masterCommand)
        (concat good @ bad @ later) w = Inr (None, w')" and "invoked w' = invoked w"
    by blast
  ultimately show ?case using gw by simp
qed

lemma enqueue_words_fails:
  assumes "is_chunk master" and "resolves rv (availableCommands_m I) master"
    and "\<forall>g \<in> set good. is_chunk g \<and> begins_with_pipe (hd g) \<and> resolves rv (availableCommands_m I) g"
    and "is_chunk bad" and "begins_with_pipe (hd bad)" and "fails_to_resolve rv (availableCommands_m I) bad"
    and "later = [] \<or> begins_with_pipe (hd later)"
  shows "\<exists>w'. enqueue_words rv (master @ concat good @ bad @ later) I w = Inr (I, w') \<and>
              invoked w' = invoked w"
proof -
  from assms(1) obtain first words where m: "master = first # words"
    by (cases master) (simp_all add: is_chunk_def)
  with assms(1) have "[] \<notin> set words" and "list_all (\<lambda>word. \<not> begins_with_pipe word) words"
    by (auto simp: is_chunk_def)
  moreover have "begins_with_pipe (hd (concat good @ bad @ later))"
    using assms(3,4,5) by (intro hd_begins_with_pipe_chunks) (auto simp: is_chunk_def)
  ultimately have "rest_of_chunk (words @ concat good @ bad @ later) = Inr (words, concat good @ bad @ later)"
    by (intro rest_of_chunk_words) simp_all
  moreover from fnParseCommand_resolves [OF assms(1,2), of w]
  obtain masterCommand where
    "fnParseCommand rv (availableCommands_m I) (first # words) w = Inr (Some masterCommand, w)"
    unfolding m by blast
  moreover from parse_subcommands_fails [OF assms(3-7), of masterCommand w]
  obtain w' where "parse_subcommands rv (availableCommands_m I) masterCommand
        (concat good @ bad @ later) w = Inr (None, w')" and "invoked w' = invoked w"
    by blast
  ultimately show ?thesis using m
    by (simp add: enqueue_words_def)
qed

lemma front_is_pipe_bare [simp]: "front_is_pipe (bare_pipe word) = front_is_pipe word"
  by (cases word) (simp_all add: bare_pipe_def front_is_pipe_def begins_with_pipe_def)

lemma bare_pipe_other: "front_is_pipe word = Inr False \<Longrightarrow> bare_pipe word = word"
  by (cases word) (simp_all add: bare_pipe_def front_is_pipe_def begins_with_pipe_def)

lemma rest_of_chunk_bare:
  "rest_of_chunk (map bare_pipe words) =
     (case rest_of_chunk words of Inl e \<Rightarrow> Inl e | Inr (chunk, rest) \<Rightarrow> Inr (chunk, map bare_pipe rest))"
  by (induction words) (auto split: sum.splits bool.splits simp: bare_pipe_other)

lemma fnParseCommand_bare:
  "fnParseCommand rv commands (bare_pipe first # chunk) w = fnParseCommand rv commands (first # chunk) w"
  by (auto simp: fnParseCommand_def bare_pipe_other split: sum.splits bool.splits)

lemma parse_subcommands_bare:
  "parse_subcommands rv commands masterCommand (map bare_pipe words) w =
   parse_subcommands rv commands masterCommand words w"
proof (induction rv commands masterCommand words w rule: parse_subcommands.induct)
  case (1 rv commands masterCommand w)
  then show ?case by simp
next
  case (2 rv commands masterCommand first words w)
  show ?case
  proof (cases "rest_of_chunk words")
    case (Inl e)
    then show ?thesis by (simp add: rest_of_chunk_bare)
  next
    case (Inr split)
    obtain chunk rest where s: "split = (chunk, rest)" by (cases split)
    show ?thesis
    proof (cases "fnParseCommand rv commands (first # chunk) w")
      case (Inl e)
      with Inr s show ?thesis by (simp add: rest_of_chunk_bare fnParseCommand_bare)
    next
      case parsed: (Inr parsed)
      obtain result w' where p: "parsed = (result, w')" by (cases parsed)
      show ?thesis
      proof (cases result)
        case None
        with Inr s parsed p show ?thesis by (simp add: rest_of_chunk_bare fnParseCommand_bare)
      next
        case (Some subcommand)
        from "2.IH" [OF Inr [unfolded s] refl parsed [unfolded p Some] refl refl]
        have "parse_subcommands rv commands (push_subcommand subcommand masterCommand) (map bare_pipe rest) w' =
              parse_subcommands rv commands (push_subcommand subcommand masterCommand) rest w'" .
        with Inr s parsed p Some show ?thesis
          by (simp add: rest_of_chunk_bare fnParseCommand_bare)
      qed
    qed
  qed
qed

lemma enqueue_words_bare:
  "enqueue_words rv (map bare_pipe pieces) I w = enqueue_words rv pieces I w"
  by (cases pieces)
     (auto simp: enqueue_words_def rest_of_chunk_bare fnParseCommand_bare parse_subcommands_bare
        split: sum.splits option.splits)

lemma split_from_space:
  "split_from cur (a @ CHR '' '' # b) = split_from cur a @ split_from [] b"
  by (induction a arbitrary: cur) simp_all

lemma split_from_word:
  "CHR '' '' \<notin> set u \<Longrightarrow> split_from cur (u @ s) = split_from (cur @ u) s"
  by (induction u arbitrary: cur) auto

lemma split_space_around_word:
  assumes "u \<noteq> []" and "CHR '' '' \<notin> set u"
    and "l = [] \<or> last l = CHR '' ''" and "r = [] \<or> hd r = CHR '' ''"
  shows "split_space (l @ u @ r) =
           (if l = [] then [] else split_from [] (butlast l)) @ [u] @
           (if r = [] then [] else split_from [] (tl r))"
proof -
  have word: "split_from [] (u @ r) = [u] @ (if r = [] then [] else split_from [] (tl r))"
  proof (cases r)
    case Nil
    with split_from_word [OF assms(2), of "[]" "[]"] show ?thesis by simp
  next
    case (Cons c cs)
    with assms(4) have "r = CHR '' '' # cs" by simp
    with split_from_word [OF assms(2), of "[]" "[]"] show ?thesis
      by (simp add: split_from_space)
  qed
  show ?thesis
  proof (cases "l = []")
    case True
    with assms(1) word show ?thesis by (simp add: split_space_def)
  next
    case False
    with assms(3) have "l = butlast l @ [CHR '' '']"
      by (metis append_butlast_last_id)
    then have "l @ u @ r = butlast l @ CHR '' '' # (u @ r)"
      by (metis append.assoc append_Cons append_Nil)
    then have "split_from [] (l @ u @ r) = split_from [] (butlast l) @ split_from [] (u @ r)"
      by (simp only: split_from_space)
    with False word show ?thesis
      by (simp add: split_space_def)
  qed
qed

text \<open>
  C3 (as the code has it). A word that begins with a pipe starts a new stage and is
  dropped whole, whatever follows the pipe in it: a line with the word \<^verbatim>\<open>|cmd\<close> is
  parsed exactly as the same line with the bare word \<^verbatim>\<open>|\<close> in its place. The stage
  name is the next word of the group, not \<^verbatim>\<open>cmd\<close>, and the words after that one are
  the bound arguments.
\<close>

theorem glued_pipe_word_is_dropped:
  assumes "CHR '' '' \<notin> set cmd"
    and "l = [] \<or> last l = CHR '' ''" and "r = [] \<or> hd r = CHR '' ''"
  shows "enqueue_command rv (l @ ''|'' @ cmd @ r) I w = enqueue_command rv (l @ ''|'' @ r) I w"
proof -
  have glued: "split_space (l @ (''|'' @ cmd) @ r) =
      (if l = [] then [] else split_from [] (butlast l)) @ [''|'' @ cmd] @
      (if r = [] then [] else split_from [] (tl r))"
    using assms by (intro split_space_around_word) simp_all
  have apart: "split_space (l @ ''|'' @ r) =
      (if l = [] then [] else split_from [] (butlast l)) @ [''|''] @
      (if r = [] then [] else split_from [] (tl r))"
    using assms by (intro split_space_around_word) simp_all
  have "bare_pipe (''|'' @ cmd) = bare_pipe ''|''"
    by (simp add: bare_pipe_def begins_with_pipe_def)
  with glued apart
  have "map bare_pipe (split_space (l @ ''|'' @ cmd @ r)) = map bare_pipe (split_space (l @ ''|'' @ r))"
    by simp
  then have "enqueue_words rv (map bare_pipe (split_space (l @ ''|'' @ cmd @ r))) I w =
             enqueue_words rv (map bare_pipe (split_space (l @ ''|'' @ r))) I w"
    by simp
  then show ?thesis
    by (simp only: enqueue_command_def enqueue_words_bare)
qed

theorem glued_pipe_word_is_dropped_witness:
  "enqueue_command First ''iota 1 3 |echo x'' (new_interpreter (registry First small_arith)) initial_world =
   enqueue_command First ''iota 1 3 | x'' (new_interpreter (registry First small_arith)) initial_world \<and>
   outcome (enqueue_command First ''iota 1 3 | x''
      (new_interpreter (registry First small_arith)) initial_world) =
     Inr ([], ''the command `x` doesn't exist.\<newline>'')"
proof
  show "enqueue_command First ''iota 1 3 |echo x'' (new_interpreter (registry First small_arith)) initial_world =
   enqueue_command First ''iota 1 3 | x'' (new_interpreter (registry First small_arith)) initial_world"
    using glued_pipe_word_is_dropped [of "''echo''" "''iota 1 3 ''" "'' x''" First
        "new_interpreter (registry First small_arith)" initial_world]
    by simp
  show "outcome (enqueue_command First ''iota 1 3 | x''
      (new_interpreter (registry First small_arith)) initial_world) =
     Inr ([], ''the command `x` doesn't exist.\<newline>'')"
    by (simp add: line_defs registry_defs message_defs outcome_defs)
qed

text \<open>
  C3 as claimed, that \<^verbatim>\<open>|cmd\<close> resolves the stage \<^verbatim>\<open>cmd\<close> like \<^verbatim>\<open>| cmd\<close>, fails:
  \<^verbatim>\<open>iota 1 3 |echo x\<close> looks for a command \<^verbatim>\<open>x\<close> and queues nothing, where
  \<^verbatim>\<open>iota 1 3 | echo x\<close> queues \<^verbatim>\<open>iota\<close> with the subcommand \<^verbatim>\<open>echo x\<close>.
\<close>

theorem glued_pipe_counterexample:
  "outcome (enqueue_command First ''iota 1 3 |echo x''
      (new_interpreter (registry First small_arith)) initial_world) =
     Inr ([], ''the command `x` doesn't exist.\<newline>'') \<and>
   outcome (enqueue_command First ''iota 1 3 | echo x''
      (new_interpreter (registry First small_arith)) initial_world) =
     Inr ([[(''iota'', [''1'', ''3'']), (''echo'', [''x''])]], [])"
proof
  show "outcome (enqueue_command First ''iota 1 3 |echo x''
      (new_interpreter (registry First small_arith)) initial_world) =
     Inr ([], ''the command `x` doesn't exist.\<newline>'')"
    by (simp add: line_defs registry_defs message_defs outcome_defs)
  show "outcome (enqueue_command First ''iota 1 3 | echo x''
      (new_interpreter (registry First small_arith)) initial_world) =
     Inr ([[(''iota'', [''1'', ''3'']), (''echo'', [''x''])]], [])"
    by (simp add: line_defs registry_defs message_defs outcome_defs)
qed

text \<open>
  C5. A line is cut into the chunk of the master command, chunks that resolve, a chunk
  whose name is not in the registry, and whatever comes after it. If the master command
  resolves, \<^verbatim>\<open>enqueue_command\<close> returns the interpreter as it was (nothing is pushed
  onto the queue) and invokes no action; with the queue empty, as \<^verbatim>\<open>main\<close> has it at
  every line, the \<^verbatim>\<open>execute\<close> that follows invokes none either.
\<close>

theorem unresolved_subcommand_queues_nothing:
  assumes "split_space input = master @ concat good @ bad @ later"
    and "is_chunk master" and "resolves rv (availableCommands_m I) master"
    and "\<forall>g \<in> set good. is_chunk g \<and> begins_with_pipe (hd g) \<and> resolves rv (availableCommands_m I) g"
    and "is_chunk bad" and "begins_with_pipe (hd bad)" and "fails_to_resolve rv (availableCommands_m I) bad"
    and "later = [] \<or> begins_with_pipe (hd later)"
  shows "\<exists>w'. enqueue_command rv input I w = Inr (I, w') \<and> invoked w' = invoked w \<and>
           (queuedCommands_m I = [] \<longrightarrow>
              execute I w' = Inr (I, w') \<and>
              (\<exists>w''. main_loop_body rv input I w = Inr (I, w'') \<and> invoked w'' = invoked w))"
proof -
  from enqueue_words_fails [OF assms(2-8), of w]
  obtain w' where e: "enqueue_command rv input I w = Inr (I, w')" and i: "invoked w' = invoked w"
    unfolding enqueue_command_def assms(1) by blast
  from enqueue_words_fails [OF assms(2-8), of "print ''>> '' w"]
  obtain w'' where e': "enqueue_command rv input I (print ''>> '' w) = Inr (I, w'')"
    and i': "invoked w'' = invoked w"
    unfolding enqueue_command_def assms(1) by auto
  have x: "\<And>v. queuedCommands_m I = [] \<Longrightarrow> execute I v = Inr (I, v)"
    by (simp add: execute_def)
  from e i e' i' x show ?thesis
    by (auto simp: main_loop_body_def)
qed

theorem unresolved_subcommand_witness:
  "\<exists>w'. enqueue_command First ''echo a | iota 1 2 | foo | bar  z''
           (new_interpreter (registry First small_arith)) initial_world =
           Inr (new_interpreter (registry First small_arith), w') \<and>
        invoked w' = [] \<and>
        execute (new_interpreter (registry First small_arith)) w' =
          Inr (new_interpreter (registry First small_arith), w') \<and>
        (\<exists>w''. main_loop_body First ''echo a | iota 1 2 | foo | bar  z''
                 (new_interpreter (registry First small_arith)) initial_world =
                 Inr (new_interpreter (registry First small_arith), w'') \<and> invoked w'' = [])"
proof -
  have words: "split_space ''echo a | iota 1 2 | foo | bar  z'' =
      [''echo'', ''a''] @ concat [[''|'', ''iota'', ''1'', ''2'']] @ [''|'', ''foo''] @ [''|'', ''bar'', [], ''z'']"
    by (simp add: split_space_def)
  have master: "is_chunk [''echo'', ''a'']"
    "resolves First (availableCommands_m (new_interpreter (registry First small_arith))) [''echo'', ''a'']"
    by (simp_all add: chunk_defs new_interpreter_def registry_defs)
  have good: "\<forall>g \<in> set [[''|'', ''iota'', ''1'', ''2'']]. is_chunk g \<and> begins_with_pipe (hd g) \<and>
      resolves First (availableCommands_m (new_interpreter (registry First small_arith))) g"
    by (simp add: chunk_defs new_interpreter_def registry_defs)
  have bad: "is_chunk [''|'', ''foo'']" "begins_with_pipe (hd [''|'', ''foo''])"
    "fails_to_resolve First (availableCommands_m (new_interpreter (registry First small_arith))) [''|'', ''foo'']"
    by (simp_all add: chunk_defs new_interpreter_def registry_defs)
  have later: "[''|'', ''bar'', [], ''z''] = [] \<or> begins_with_pipe (hd [''|'', ''bar'', [], ''z''])"
    by (simp add: begins_with_pipe_def)
  from unresolved_subcommand_queues_nothing [OF words master good bad later, of initial_world]
  show ?thesis
    by (simp add: new_interpreter_def initial_world_def)
qed

subsection \<open>Primitives\<close>

lemma bitset_to_string_unat: "bitset_to_string N value = bits_string N (unat value)"
  by (simp add: bitset_to_string_def bits_string_def bit_unsigned_iff)

lemma bits_string_Suc:
  "bits_string (Suc N) n = bits_string N (n div 2) @ [if odd n then CHR ''1'' else CHR ''0'']"
proof -
  have "[0..<Suc N] = 0 # map Suc [0..<N]"
    by (simp add: upt_conv_Cons map_Suc_upt del: upt_Suc)
  then have "rev [0..<Suc N] = map Suc (rev [0..<N]) @ [0]"
    by (simp add: rev_map del: upt_Suc)
  then show ?thesis
    by (simp add: bits_string_def bit_Suc bit_0 comp_def del: upt_Suc)
qed

lemma bits_string_zero: "bits_string N 0 = replicate N CHR ''0''"
  by (induction N) (simp_all add: bits_string_Suc replicate_append_same, simp add: bits_string_def)

lemma digit_char_bit: "n < 2 \<Longrightarrow> digit_char n = (if odd n then CHR ''1'' else CHR ''0'')"
  by (cases n) (auto simp: digit_char_def)

lemma bits_string_padded:
  "n < 2 ^ N \<Longrightarrow> 0 < N \<Longrightarrow> bits_string N n = binary_padded N n"
proof (induction N arbitrary: n)
  case 0
  then show ?case by simp
next
  case (Suc N)
  show ?case
  proof (cases "n < 2")
    case True
    then have "n div 2 = 0" by simp
    with True show ?thesis
      by (simp add: bits_string_Suc bits_string_zero binary_padded_def show_base.simps [of 2 n]
            digit_char_bit)
  next
    case False
    with Suc.prems have small: "n div 2 < 2 ^ N" and pos: "0 < n div 2" by auto
    then have "0 < N" by (cases N) auto
    from Suc.IH [OF small this]
    have "bits_string N (n div 2) = binary_padded N (n div 2)" .
    moreover have "digit_char (n mod 2) = (if odd n then CHR ''1'' else CHR ''0'')"
      by (simp add: digit_char_bit odd_iff_mod_2_eq_one)
    ultimately show ?thesis using False
      by (simp add: bits_string_Suc binary_padded_def show_base.simps [of 2 n])
  qed
qed

text \<open>
  C10. For every argument string, read as the unsigned value \<open>v\<close>, \<^verbatim>\<open>bin\<close> returns
  the one string \<^verbatim>\<open>0b\<close> followed by the binary digits of \<open>v\<close> padded with zeros to
  the smallest of the widths 8, 16, 32 and 64 that holds \<open>v\<close>; the branch after the four
  cases (\<^verbatim>\<open>std::unreachable()\<close>) is not taken, since a \<^verbatim>\<open>std::size_t\<close> is at most
  \<open>2 ^ 64 - 1\<close>.
\<close>

theorem bin_smallest_width:
  "(let v = unat (read_size A argument) in
      bin_action A (argument # rest) w = Inr ([''0b'' @ binary_padded (smallest_width v) v], w) \<and>
      bin_action A (argument # rest) w \<noteq> Inl UndefinedBehaviour \<and>
      smallest_width v \<in> {8, 16, 32, 64} \<and>
      v < 2 ^ smallest_width v \<and>
      (\<forall>width \<in> {8, 16, 32, 64}. v < 2 ^ width \<longrightarrow> smallest_width v \<le> width))"
proof -
  define x where "x = read_size A argument"
  have bound: "unat x < 2 ^ 64"
    using unsigned_less [of x] by simp
  have le: "\<And>k :: 64 word. (x \<le> k) = (unat x \<le> unat k)"
    by (simp add: word_le_nat_alt)
  have run: "bin_action A (argument # rest) w =
      Inr ([''0b'' @ bits_string (smallest_width (unat x)) (unat x)], w)"
    using bound
    by (simp add: bin_action_def deque_at_def Let_def x_def [symmetric] le smallest_width_def
          bitset_to_string_unat)
  have fits: "unat x < 2 ^ smallest_width (unat x)"
    using bound by (simp add: smallest_width_def)
  have "0 < smallest_width (unat x)"
    by (simp add: smallest_width_def)
  from bits_string_padded [OF fits this] run
  have "bin_action A (argument # rest) w =
      Inr ([''0b'' @ binary_padded (smallest_width (unat x)) (unat x)], w)"
    by simp
  moreover have "\<forall>width \<in> {8, 16, 32, 64}. unat x < 2 ^ width \<longrightarrow> smallest_width (unat x) \<le> width"
    by (simp add: smallest_width_def)
  moreover have "smallest_width (unat x) \<in> {8, 16, 32, 64}"
    by (simp add: smallest_width_def)
  ultimately show ?thesis using fits by (simp add: Let_def x_def)
qed

theorem bin_smallest_width_witness:
  "bin_action small_arith [''300''] initial_world = Inr ([''0b0000000100101100''], initial_world) \<and>
   smallest_width 300 = 16 \<and> (300::nat) < 2 ^ 16 \<and> \<not> (300::nat) < 2 ^ 8"
proof -
  have r: "unat (read_size small_arith ''300'') = 300"
    by (simp add: small_defs read_size_digits_def)
  have p: "binary_padded 16 300 = ''0000000100101100''"
    by code_simp
  have s: "smallest_width 300 = 16"
    by (simp add: smallest_width_def)
  from bin_smallest_width [of small_arith "''300''" "[]" initial_world]
  show ?thesis unfolding Let_def r s p by simp
qed

end
